theory Spec2Isabelle
  imports Complex_Main "HOL-Library.Sublist" "HOL-Library.AList"
begin

section \<open>Numbers and strings of the source language\<close>

text \<open>
  The plugin is TypeScript. Its \<^verbatim>\<open>number\<close> values are modelled as exact reals (or as
  integers where the code has just rounded them), so rounding errors of IEEE doubles are
  outside the model. \<^verbatim>\<open>Math.round\<close> rounds to the nearest integer, halves upwards.
\<close>

definition js_round :: "real \<Rightarrow> int" where
  "js_round x = \<lfloor>x + 1 / 2\<rfloor>"

text \<open>
  Strings are sequences of characters with code points below 256. On these,
  \<^verbatim>\<open>String.prototype.toLowerCase\<close> maps \<^verbatim>\<open>A..Z\<close> and the upper-case letters of the
  Latin-1 block (\<^verbatim>\<open>0xC0..0xDE\<close> without the multiplication sign \<^verbatim>\<open>0xD7\<close>)
  32 code points up and leaves every other character alone.
\<close>

definition toLowerChar :: "char \<Rightarrow> char" where
  "toLowerChar c =
     (let n = (of_char c :: nat)
      in if (65 \<le> n \<and> n \<le> 90) \<or> (192 \<le> n \<and> n \<le> 222 \<and> n \<noteq> 215)
         then char_of (n + 32) else c)"

definition toLowerCase :: "string \<Rightarrow> string" where
  "toLowerCase s = map toLowerChar s"

section \<open>Enumeration mapper (\<^verbatim>\<open>module.ts\<close>)\<close>

text \<open>The \<^verbatim>\<open>const enum\<close> values of \<^verbatim>\<open>module.ts\<close>, lines 57--100.\<close>

definition RvcRunMode_Idle :: int where "RvcRunMode_Idle = 1"
definition RvcRunMode_Cleaning :: int where "RvcRunMode_Cleaning = 2"
definition RvcRunMode_Mapping :: int where "RvcRunMode_Mapping = 3"

definition Stopped :: int where "Stopped = 0x00"
definition Running :: int where "Running = 0x01"
definition Paused :: int where "Paused = 0x02"
definition Error :: int where "Error = 0x03"
definition SeekingCharger :: int where "SeekingCharger = 0x40"
definition Charging :: int where "Charging = 0x41"
definition Docked :: int where "Docked = 0x42"

text \<open>
  \<^verbatim>\<open>statusMap\<close> (lines 1140--1150) is an object literal, and \<^verbatim>\<open>statusMap[statusLower]\<close>
  is an ordinary property read: where the literal has no own property of that name the
  read continues in \<^verbatim>\<open>Object.prototype\<close>. The value read is therefore either one of
  the table's numbers or a member inherited from \<^verbatim>\<open>Object.prototype\<close>; both kinds are
  values of \<open>js_value\<close>, which also holds the booleans written to contact sensors and
  the number \<^verbatim>\<open>NaN\<close> (what \<^verbatim>\<open>Math.round\<close> returns on a value that is not numeric).
  An inherited member is a function or object, never \<^verbatim>\<open>null\<close> or \<^verbatim>\<open>undefined\<close>, so
  the \<^verbatim>\<open>??\<close> of line 1152 keeps it.
\<close>

datatype js_value = JNum int | JNaN | JBool bool | JObjectPrototypeMember string

text \<open>
  The comparison \<^verbatim>\<open>stored !== v\<close> of a stored value (\<open>None\<close> is \<^verbatim>\<open>null\<close>) with a
  newly computed one: \<^verbatim>\<open>NaN\<close> is strictly equal to nothing, itself included; numbers
  and booleans compare by value, an inherited member by identity.
\<close>

definition strictlyDiffers :: "js_value option \<Rightarrow> js_value \<Rightarrow> bool" where
  "strictlyDiffers stored v = (v = JNaN \<or> stored \<noteq> Some v)"

definition Object_prototype_names :: "string list" where
  "Object_prototype_names =
     [''constructor'', ''__defineGetter__'', ''__defineSetter__'', ''hasOwnProperty'',
      ''__lookupGetter__'', ''__lookupSetter__'', ''isPrototypeOf'', ''propertyIsEnumerable'',
      ''toString'', ''valueOf'', ''__proto__'', ''toLocaleString'']"

definition statusMap_own :: "(string \<times> int) list" where
  "statusMap_own =
     [(''idle'', Docked),
      (''docked'', Docked),
      (''cleaning'', Running),
      (''returning'', SeekingCharger),
      (''manual_control'', Running),
      (''moving'', Docked),
      (''paused'', Paused),
      (''error'', Error),
      (''charging'', Charging)]"

text \<open>The property read \<^verbatim>\<open>statusMap[key]\<close>; \<open>None\<close> is \<^verbatim>\<open>undefined\<close>.\<close>

definition statusMap :: "string \<Rightarrow> js_value option" where
  "statusMap key =
     (case map_of statusMap_own key of
        Some n \<Rightarrow> Some (JNum n)
      | None \<Rightarrow> if key \<in> set Object_prototype_names
                then Some (JObjectPrototypeMember key) else None)"

text \<open>
  \<^verbatim>\<open>mapValetudoStatusToOperationalState\<close>, lines 1137--1162. The optional parameter
  \<^verbatim>\<open>dockStatus\<close> is an \<open>option\<close>; the test \<^verbatim>\<open>dockStatus && ...\<close> also fails on the
  empty string.
\<close>

definition mapValetudoStatusToOperationalState :: "string \<Rightarrow> string option \<Rightarrow> js_value" where
  "mapValetudoStatusToOperationalState status dockStatus =
     (let statusLower = toLowerCase status;
          baseState = (case statusMap statusLower of Some v \<Rightarrow> v | None \<Rightarrow> JNum Stopped)
      in case dockStatus of
           Some d \<Rightarrow>
             if d \<noteq> [] \<and> (statusLower = ''docked'' \<or> statusLower = ''idle'' \<or> statusLower = ''charging'')
             then (let dockStatusLower = toLowerCase d
                   in if dockStatusLower = ''emptying'' \<or> dockStatusLower = ''drying''
                         \<or> dockStatusLower = ''cleaning''
                      then JNum Docked else baseState)
             else baseState
         | None \<Rightarrow> baseState)"

text \<open>\<^verbatim>\<open>mapValetudoStatusToRunMode\<close>, lines 1167--1175.\<close>

definition mapValetudoStatusToRunMode :: "string \<Rightarrow> int" where
  "mapValetudoStatusToRunMode status =
     (let statusLower = toLowerCase status
      in if statusLower = ''cleaning'' then RvcRunMode_Cleaning else RvcRunMode_Idle)"

section \<open>Spatial index cache (\<^verbatim>\<open>valetudo-client.ts\<close>)\<close>

text \<open>
  \<^verbatim>\<open>MapLayer\<close> and \<^verbatim>\<open>CachedMapLayers\<close> (lines 111--166), with the fields the plugin reads:
  the layer's \<^verbatim>\<open>type\<close>, its \<^verbatim>\<open>metaData.segmentId\<close>, and per axis the \<^verbatim>\<open>min\<close>,
  \<^verbatim>\<open>max\<close> and \<^verbatim>\<open>mid\<close> of its \<^verbatim>\<open>dimensions\<close>.
\<close>

record MapLayerDimensions =
  x_min :: real
  x_max :: real
  x_mid :: real
  y_min :: real
  y_max :: real
  y_mid :: real

record MapLayer =
  layer_type :: string
  segmentId :: string
  dimensions :: MapLayerDimensions

record CachedMapLayers =
  layers :: "MapLayer list"
  pixelSize :: real
  timestamp :: int
  version :: int

text \<open>Line 535: the bounds test, inclusive on all four edges.\<close>

definition inBounds :: "MapLayer \<Rightarrow> real \<Rightarrow> real \<Rightarrow> bool" where
  "inBounds segment x y =
     (let dims = dimensions segment
      in x \<ge> x_min dims \<and> x \<le> x_max dims \<and> y \<ge> y_min dims \<and> y \<le> y_max dims)"

text \<open>Line 539: the distance of the query point from the layer's recorded midpoint.\<close>

definition distanceFromMid :: "MapLayer \<Rightarrow> real \<Rightarrow> real \<Rightarrow> real" where
  "distanceFromMid segment x y =
     (let dims = dimensions segment
      in sqrt ((x - x_mid dims) ^ 2 + (y - y_mid dims) ^ 2))"

text \<open>Lines 533--542: the loop that collects the matching segments with their distances.\<close>

fun matchingSegments :: "real \<Rightarrow> real \<Rightarrow> MapLayer list \<Rightarrow> (MapLayer \<times> real) list" where
  "matchingSegments x y [] = []"
| "matchingSegments x y (segment # rest) =
     (if inBounds segment x y
      then (segment, distanceFromMid segment x y) # matchingSegments x y rest
      else matchingSegments x y rest)"

text \<open>
  \<^verbatim>\<open>findSegmentAtPositionCached\<close>, lines 527--558; \<open>None\<close> is \<^verbatim>\<open>null\<close>.
  \<^verbatim>\<open>Array.prototype.sort\<close> is a stable sort, and the comparator
  \<^verbatim>\<open>a.distance - b.distance\<close> orders by distance: this is \<^const>\<open>sort_key\<close> on the
  distance component.
\<close>

definition findSegmentAtPositionCached :: "CachedMapLayers \<Rightarrow> real \<Rightarrow> real \<Rightarrow> MapLayer option" where
  "findSegmentAtPositionCached cachedLayers x y =
     (let segments = filter (\<lambda>layer. layer_type layer = ''segment'') (layers cachedLayers);
          matching = matchingSegments x y segments
      in case matching of
           [] \<Rightarrow> None
         | [m] \<Rightarrow> Some (fst m)
         | _ \<Rightarrow> (case sort_key snd matching of
                   closest # _ \<Rightarrow> Some (fst closest)
                 | [] \<Rightarrow> None))"

section \<open>Clean-mode catalog (\<^verbatim>\<open>module.ts\<close>)\<close>

text \<open>An entry of \<^verbatim>\<open>supportedCleanModes\<close>: label, mode number, mode tags.\<close>

record CleanMode =
  label :: string
  mode :: int
  modeTags :: "int list"

text \<open>
  Lines 519--527: the \<^verbatim>\<open>filter\<close> whose callback consults and extends the set
  \<^verbatim>\<open>seenLabels\<close>; the set is threaded through the recursion.
\<close>

fun deduplicateModes :: "string set \<Rightarrow> CleanMode list \<Rightarrow> CleanMode list" where
  "deduplicateModes seenLabels [] = []"
| "deduplicateModes seenLabels (m # ms) =
     (if label m \<in> seenLabels then deduplicateModes seenLabels ms
      else m # deduplicateModes (insert (label m) seenLabels) ms)"

text \<open>
  The mode tags of the cluster \<^verbatim>\<open>RvcCleanMode\<close> come from the Matter library, which is
  not part of the repository; the two that the fallback entry uses are parameters.
  Lines 518--537 of \<^verbatim>\<open>createDeviceForVacuum\<close>: deduplication, then the fallback.
\<close>

definition finalCleanModes :: "int \<Rightarrow> int \<Rightarrow> CleanMode list \<Rightarrow> CleanMode list" where
  "finalCleanModes tagVacuum tagAuto supportedCleanModes =
     (let deduplicatedModes = deduplicateModes {} supportedCleanModes
      in if length deduplicatedModes = 0
         then [\<lparr>label = ''Vacuum'', mode = 66, modeTags = [tagVacuum, tagAuto]\<rparr>]
         else deduplicatedModes)"

section \<open>Device record, vendor payloads and effects\<close>

text \<open>
  The vendor's state attributes (\<^verbatim>\<open>valetudo-client.ts\<close>, lines 36--69), a tagged union on
  \<^verbatim>\<open>__class\<close>. Attachment and preset-selection attributes are never inspected by the
  synchronizer; they are \<open>OtherStateAttribute\<close> with their class name. The records are
  parsed JSON that is only cast to these types, so a field may be missing:
  \<^item> the battery \<^verbatim>\<open>level\<close> is \<open>None\<close> when it is missing or not numeric, and then
    \<^verbatim>\<open>battery.level * 2\<close> is \<^verbatim>\<open>NaN\<close>;
  \<^item> the status \<^verbatim>\<open>value\<close> is \<open>None\<close> when it is missing or not a string, and then
    \<^verbatim>\<open>status.toLowerCase()\<close> raises a \<^verbatim>\<open>TypeError\<close>;
  \<^item> the dock status \<^verbatim>\<open>value\<close> is \<open>None\<close> when it is missing, and then
    \<^verbatim>\<open>dockStatus?.value\<close> is \<^verbatim>\<open>undefined\<close>, as without the record;
  \<^item> a missing battery \<^verbatim>\<open>flag\<close> fails every comparison of lines 920--926, as any
    unknown flag does; it needs no value of its own.
\<close>

datatype StateAttribute =
    BatteryStateAttribute "real option" string
  | StatusStateAttribute "string option"
  | DockStatusStateAttribute "string option"
  | OtherStateAttribute string

text \<open>
  The client's requests (\<^verbatim>\<open>valetudo-client.ts\<close>). \<^verbatim>\<open>httpGet\<close> (lines 619--665) rejects
  on a status other than 200, a socket error, a timeout or an unparsable body, after
  writing an error-level line to the logger, which is the platform's own
  (\<^verbatim>\<open>module.ts\<close>, line 262); the calling method catches the rejection, writes another
  error-level line and returns \<^verbatim>\<open>null\<close>. \<open>Failed\<close> is such a request; the lines of
  \<^verbatim>\<open>httpGet\<close> are recorded as one entry. \<open>Body b\<close> is a request that delivered the
  parsed body \<open>b\<close>.
\<close>

datatype 'a fetched = Failed | Body 'a

text \<open>
  What \<^verbatim>\<open>getStateAttributes\<close> (lines 244--252) hands to the caller: \<open>FetchFailed\<close> is a
  failed request (\<^verbatim>\<open>null\<close>, after the two error lines), \<open>NoData\<close> a body that is
  \<^verbatim>\<open>null\<close> or another falsy value, \<open>NotAnArray\<close> a body that is neither falsy nor an
  array, on which \<^verbatim>\<open>attributes.find\<close> raises a \<^verbatim>\<open>TypeError\<close>.
\<close>

datatype attributes_response = FetchFailed | NoData | NotAnArray | Attributes "StateAttribute list"

record ConsumableRemaining =
  rem_value :: real
  rem_unit :: string

text \<open>
  \<^verbatim>\<open>ValetudoConsumable\<close> (lines 82--87). The payload is parsed JSON that is only cast to
  this type; a record without \<^verbatim>\<open>remaining\<close> has \<open>remaining = None\<close>, and reading
  \<^verbatim>\<open>consumable.remaining.value\<close> on it raises a \<^verbatim>\<open>TypeError\<close>.
\<close>

record ValetudoConsumable =
  consumable_type :: string
  subType :: string
  remaining :: "ConsumableRemaining option"

record MapEntity =
  entity_type :: string
  points :: "real list"

text \<open>
  \<^verbatim>\<open>MapData\<close> and \<^verbatim>\<open>MapPositionData\<close> (lines 142--175), again parsed JSON under a cast:
  \<open>map_metaData_version = None\<close> is a body without \<^verbatim>\<open>metaData\<close> (reading
  \<^verbatim>\<open>mapData.metaData.version\<close> raises), \<open>entities = None\<close> a body without
  \<^verbatim>\<open>entities\<close> (calling \<^verbatim>\<open>positionData.entities.find\<close> raises), and
  \<open>pos_metaData_version = None\<close> a position payload whose version is \<^verbatim>\<open>undefined\<close>.
\<close>

record MapData =
  map_metaData_version :: "int option"
  map_pixelSize :: real
  map_layers :: "MapLayer list"

record MapPositionData =
  entities :: "MapEntity list option"
  pos_metaData_version :: "int option"

record SegmentInfo =
  seg_id :: string
  seg_name :: string

text \<open>
  An entry of \<^verbatim>\<open>consumableMap\<close> (\<^verbatim>\<open>module.ts\<close>, line 35): whether a contact-sensor
  endpoint exists, the last consumable seen, and the optional \<^verbatim>\<open>lastState\<close>.
\<close>

record ConsumableEntry =
  endpoint :: bool
  consumable :: ValetudoConsumable
  lastState :: "bool option"

text \<open>
  \<^verbatim>\<open>VacuumInstance\<close> (\<^verbatim>\<open>module.ts\<close>, lines 21--52), with the fields that a poll cycle
  reads or writes. \<open>device\<close> says whether the Matter device exists (is not \<^verbatim>\<open>null\<close>).
  The two \<^verbatim>\<open>Map\<close>s are association lists in insertion order; \<^verbatim>\<open>null\<close> is \<open>None\<close>.
\<close>

record VacuumInstance =
  device :: bool
  areaToSegmentMap :: "(nat \<times> SegmentInfo) list"
  consumableMap :: "(string \<times> ConsumableEntry) list"
  mapLayersCache :: "CachedMapLayers option"
  mapCacheValidUntil :: real
  lastCurrentArea :: "nat option"
  lastConsumablesCheck :: int
  lastBatteryLevel :: "js_value option"
  lastBatteryChargeState :: "int option"
  lastOperationalState :: "js_value option"
  lastRunMode :: "int option"
  initialStatePending :: bool
  lastSeen :: int
  online :: bool

text \<open>The part of the platform configuration that a poll cycle reads; \<open>None\<close> is a missing key.\<close>

record PlatformConfig =
  positionTracking_enabled :: "bool option"
  mapCache_refreshIntervalHours :: "real option"
  consumables_maxLifetimes :: "(string \<times> real) list option"
  consumables_warningThreshold :: "real option"

text \<open>
  Effects. A cycle's writes to the downstream sink and the lines written to the platform's
  logger, by the platform and by the client, are collected in a trace, in program order. \<open>SetAttribute cluster attribute value\<close> is
  \<^verbatim>\<open>vacuum.device.setAttribute\<close>, \<open>SetSensorAttribute name cluster attribute value\<close> the
  same call on the contact sensor of the consumable \<open>name\<close>. The sink reports its outcome
  as a value that the code ignores, so a write never raises. A log entry carries its level
  and the fixed part of its text. The pacing delays (\<^verbatim>\<open>setTimeout\<close>) change no state and
  are not recorded.
\<close>

datatype log_level = Debug | Info | Warn | Err

datatype event =
    SetAttribute string string js_value
  | SetSensorAttribute string string string js_value
  | Log log_level string

text \<open>
  A computation that may raise: the state and trace reached, and whether it returned
  or raised there. Mutations made before an exception stay.
\<close>

datatype 'a outcome = Returned 'a | Threw 'a

section \<open>Consumable lifetime tracker (\<^verbatim>\<open>module.ts\<close>)\<close>

text \<open>
  \<^verbatim>\<open>getConsumableName\<close>, lines 1344--1362. The key looked up in \<^verbatim>\<open>typeMap\<close> always
  contains a hyphen, so it never names a member of \<^verbatim>\<open>Object.prototype\<close>; the same
  holds for the four fixed keys read from \<^verbatim>\<open>maxLifetimes\<close> below.
\<close>

definition typeMap :: "(string \<times> string) list" where
  "typeMap =
     [(''brush-main'', ''Main Brush''),
      (''brush-side_right'', ''Side Brush''),
      (''brush-side_left'', ''Side Brush Left''),
      (''filter-main'', ''Dust Filter''),
      (''cleaning-sensor'', ''Sensor''),
      (''cleaning-wheel'', ''Wheel''),
      (''consumable-detergent'', ''Detergent'')]"

definition getConsumableName :: "ValetudoConsumable \<Rightarrow> string" where
  "getConsumableName c =
     (let key = consumable_type c @ ''-'' @ subType c
      in if sublist ''dock'' (subType c) then ''Detergent''
         else (case map_of typeMap key of
                 Some name \<Rightarrow> name
               | None \<Rightarrow> consumable_type c @ '' '' @ subType c))"

text \<open>
  \<^verbatim>\<open>getMaxLifetime\<close>, lines 1367--1392, on a consumable whose \<^verbatim>\<open>remaining\<close> record \<open>r\<close>
  is present. \<^verbatim>\<open>maxLifetimes[key] || 10000\<close> takes the default for a missing key and
  for a configured zero.
\<close>

definition getMaxLifetime :: "ValetudoConsumable \<Rightarrow> ConsumableRemaining \<Rightarrow> (string \<times> real) list \<Rightarrow> real" where
  "getMaxLifetime c r maxLifetimes =
     (if rem_value r \<le> 100 \<and> rem_value r \<ge> 0
         \<and> (consumable_type c = ''consumable'' \<or> sublist ''detergent'' (subType c)
              \<or> sublist ''dock'' (subType c))
      then 100
      else if consumable_type c = ''brush'' \<and> subType c = ''main''
        then (case map_of maxLifetimes ''mainBrush'' of
                Some n \<Rightarrow> if n = 0 then 10000 else n | None \<Rightarrow> 10000)
      else if consumable_type c = ''brush'' \<and> (subType c = ''side_right'' \<or> subType c = ''side_left'')
        then (case map_of maxLifetimes ''sideBrush'' of
                Some n \<Rightarrow> if n = 0 then 10000 else n | None \<Rightarrow> 10000)
      else if consumable_type c = ''filter'' \<and> subType c = ''main''
        then (case map_of maxLifetimes ''dustFilter'' of
                Some n \<Rightarrow> if n = 0 then 10000 else n | None \<Rightarrow> 10000)
      else if consumable_type c = ''cleaning'' \<and> subType c = ''sensor''
        then (case map_of maxLifetimes ''sensor'' of
                Some n \<Rightarrow> if n = 0 then 10000 else n | None \<Rightarrow> 10000)
      else 10000)"

text \<open>The default of \<^verbatim>\<open>config.consumables?.maxLifetimes || {...}\<close> (lines 801 and 1092).\<close>

definition defaultMaxLifetimes :: "(string \<times> real) list" where
  "defaultMaxLifetimes =
     [(''mainBrush'', 18000), (''sideBrush'', 12000), (''dustFilter'', 9000), (''sensor'', 1800)]"

definition configuredMaxLifetimes :: "PlatformConfig \<Rightarrow> (string \<times> real) list" where
  "configuredMaxLifetimes config =
     (case consumables_maxLifetimes config of Some m \<Rightarrow> m | None \<Rightarrow> defaultMaxLifetimes)"

text \<open>
  Lines 816 and 1112: \<^verbatim>\<open>Math.round((remainingMinutes / maxLifetime) * 100)\<close>.
  \<^const>\<open>getMaxLifetime\<close> never returns zero, so the division is defined.
\<close>

definition lifePercent :: "ValetudoConsumable \<Rightarrow> ConsumableRemaining \<Rightarrow> (string \<times> real) list \<Rightarrow> int" where
  "lifePercent c r maxLifetimes =
     (let maxLifetime = getMaxLifetime c r maxLifetimes;
          remainingMinutes = rem_value r
      in js_round ((remainingMinutes / maxLifetime) * 100))"

text \<open>
  The warning threshold of the periodic check, line 1098:
  \<^verbatim>\<open>config.consumables?.warningThreshold || 10\<close>. The operator \<^verbatim>\<open>||\<close> replaces every
  falsy value, so a configured \<^verbatim>\<open>0\<close> becomes \<^verbatim>\<open>10\<close> as well.
\<close>

definition update_warningThreshold :: "PlatformConfig \<Rightarrow> real" where
  "update_warningThreshold config =
     (case consumables_warningThreshold config of
        Some t \<Rightarrow> if t = 0 then 10 else t
      | None \<Rightarrow> 10)"

text \<open>
  The warning threshold at device setup, line 810:
  \<^verbatim>\<open>config.consumables?.warningThreshold ?? 10\<close>. The operator \<^verbatim>\<open>??\<close> replaces only
  a missing value.
\<close>

definition setup_warningThreshold :: "PlatformConfig \<Rightarrow> real" where
  "setup_warningThreshold config =
     (case consumables_warningThreshold config of Some t \<Rightarrow> t | None \<Rightarrow> 10)"

text \<open>
  Lines 812--839 of \<^verbatim>\<open>setupConsumablesForVacuum\<close>: the entry created for one reported
  consumable, with or without contact sensor; \<open>None\<close> when reading
  \<^verbatim>\<open>consumable.remaining.value\<close> raises.
\<close>

definition setupConsumableEntry :: "PlatformConfig \<Rightarrow> bool \<Rightarrow> ValetudoConsumable \<Rightarrow> (string \<times> ConsumableEntry) option" where
  "setupConsumableEntry config exposeAsContactSensors c =
     (let name = getConsumableName c
      in case remaining c of
           None \<Rightarrow> None
         | Some r \<Rightarrow>
             (let needsReplacement =
                    (real_of_int (lifePercent c r (configuredMaxLifetimes config))
                       \<le> setup_warningThreshold config)
              in if exposeAsContactSensors
                 then Some (name, \<lparr>endpoint = True, consumable = c, lastState = Some needsReplacement\<rparr>)
                 else Some (name, \<lparr>endpoint = False, consumable = c, lastState = None\<rparr>)))"

text \<open>
  One iteration of the loop of \<^verbatim>\<open>updateConsumableStatesForVacuum\<close>, lines 1104--1128,
  on the consumable map \<open>m\<close>. The entry is an object held by the map and is updated in
  place.
\<close>

definition checkConsumable ::
  "(string \<times> real) list \<Rightarrow> real \<Rightarrow> ValetudoConsumable \<Rightarrow> (string \<times> ConsumableEntry) list
     \<Rightarrow> ((string \<times> ConsumableEntry) list \<times> event list) outcome" where
  "checkConsumable maxLifetimes warningThreshold c m =
     (let name = getConsumableName c
      in case map_of m name of
           None \<Rightarrow> Returned (m, [])
         | Some entry \<Rightarrow>
             (case remaining c of
                None \<Rightarrow> Threw (m, [])
              | Some r \<Rightarrow>
                  (let needsReplacement =
                         (real_of_int (lifePercent c r maxLifetimes) \<le> warningThreshold);
                       entry1 = entry\<lparr>consumable := c\<rparr>;
                       changed = (lastState entry1 = None \<or> lastState entry1 \<noteq> Some needsReplacement);
                       entry2 = (if changed then entry1\<lparr>lastState := Some needsReplacement\<rparr> else entry1);
                       logged = (if changed
                                 then [Log Info (name @ (if needsReplacement
                                                         then '': NEEDS REPLACEMENT'' else '': OK''))]
                                 else []);
                       published = (if endpoint entry2
                                    then [SetSensorAttribute name ''BooleanState'' ''stateValue''
                                            (JBool (\<not> needsReplacement))]
                                    else [])
                   in Returned (AList.update name entry2 m, logged @ published))))"

fun consumablesLoop ::
  "(string \<times> real) list \<Rightarrow> real \<Rightarrow> ValetudoConsumable list \<Rightarrow> (string \<times> ConsumableEntry) list
     \<Rightarrow> ((string \<times> ConsumableEntry) list \<times> event list) outcome" where
  "consumablesLoop maxLifetimes warningThreshold [] m = Returned (m, [])"
| "consumablesLoop maxLifetimes warningThreshold (c # cs) m =
     (case checkConsumable maxLifetimes warningThreshold c m of
        Threw r \<Rightarrow> Threw r
      | Returned (m1, es1) \<Rightarrow>
          (case consumablesLoop maxLifetimes warningThreshold cs m1 of
             Returned (m2, es2) \<Rightarrow> Returned (m2, es1 @ es2)
           | Threw (m2, es2) \<Rightarrow> Threw (m2, es1 @ es2)))"

text \<open>
  The result and the log lines of one client method: \<^verbatim>\<open>getMapDataWithTimeout\<close> (lines
  486--494) and \<^verbatim>\<open>getConsumables\<close> (lines 598--606) return the parsed body as it is, a
  \<^verbatim>\<open>null\<close> body as \<open>None\<close>.
\<close>

fun clientGet :: "string \<Rightarrow> 'a option fetched \<Rightarrow> 'a option \<times> event list" where
  "clientGet what Failed = (None, [Log Err ''HTTP GET'', Log Err (''Error fetching '' @ what)])"
| "clientGet what (Body b) = (b, [])"

text \<open>
  \<^verbatim>\<open>updateConsumableStatesForVacuum\<close>, lines 1074--1132. \<open>now\<close> is the value of
  \<^verbatim>\<open>Date.now()\<close>, \<open>response\<close> the outcome of the request of \<^verbatim>\<open>getConsumables\<close>.
\<close>

definition CONSUMABLES_CHECK_INTERVAL :: int where
  "CONSUMABLES_CHECK_INTERVAL = 5 * 60 * 1000"

definition updateConsumableStatesForVacuum ::
  "PlatformConfig \<Rightarrow> int \<Rightarrow> ValetudoConsumable list option fetched \<Rightarrow> VacuumInstance
     \<Rightarrow> VacuumInstance \<times> event list" where
  "updateConsumableStatesForVacuum config now response vacuum =
     (if now - lastConsumablesCheck vacuum < CONSUMABLES_CHECK_INTERVAL then (vacuum, [])
      else (let vacuum1 = vacuum\<lparr>lastConsumablesCheck := now\<rparr>;
                maxLifetimes = configuredMaxLifetimes config;
                warningThreshold = update_warningThreshold config;
                (result, clientLines) = clientGet ''consumables'' response
            in case result of
                 None \<Rightarrow> (vacuum1, clientLines)
               | Some consumables \<Rightarrow>
                   (case consumablesLoop maxLifetimes warningThreshold consumables
                           (consumableMap vacuum1) of
                      Returned (m, es) \<Rightarrow> (vacuum1\<lparr>consumableMap := m\<rparr>, clientLines @ es)
                    | Threw (m, es) \<Rightarrow>
                        (vacuum1\<lparr>consumableMap := m\<rparr>,
                         clientLines @ es @ [Log Debug ''Error updating consumables'']))))"

section \<open>Change-gated synchronizer (\<^verbatim>\<open>module.ts\<close>)\<close>

text \<open>
  The three \<^verbatim>\<open>attributes.find(attr => attr.__class === ...)\<close> of lines 915, 951 and 952:
  the first attribute of the class, if any.
\<close>

fun findBattery :: "StateAttribute list \<Rightarrow> (real option \<times> string) option" where
  "findBattery [] = None"
| "findBattery (BatteryStateAttribute level flag # rest) = Some (level, flag)"
| "findBattery (_ # rest) = findBattery rest"

fun findStatus :: "StateAttribute list \<Rightarrow> string option option" where
  "findStatus [] = None"
| "findStatus (StatusStateAttribute v # rest) = Some v"
| "findStatus (_ # rest) = findStatus rest"

text \<open>\<^verbatim>\<open>dockStatus?.value\<close> of the record found; \<open>None\<close> is \<^verbatim>\<open>undefined\<close>.\<close>

fun findDockStatus :: "StateAttribute list \<Rightarrow> string option" where
  "findDockStatus [] = None"
| "findDockStatus (DockStatusStateAttribute v # rest) = v"
| "findDockStatus (_ # rest) = findDockStatus rest"

text \<open>
  Line 917, \<^verbatim>\<open>Math.round(battery.level * 2)\<close>, which is \<^verbatim>\<open>NaN\<close> without a numeric
  level, and lines 918--926.
\<close>

definition batPercentRemaining :: "real option \<Rightarrow> js_value" where
  "batPercentRemaining level =
     (case level of None \<Rightarrow> JNaN | Some l \<Rightarrow> JNum (js_round (l * 2)))"

definition batChargeState :: "string \<Rightarrow> int" where
  "batChargeState flag =
     (if flag = ''charging'' then 1
      else if flag = ''charged'' then 2
      else if flag = ''discharging'' \<or> flag = ''none'' then 3
      else 0)"

text \<open>
  Lines 915--945, the battery part of \<^verbatim>\<open>updateVacuumState\<close>. Both change flags are
  computed before the first write. The charge state, like the run mode below, is one of
  a few fixed numbers, on which \<^verbatim>\<open>!==\<close> is plain inequality.
\<close>

definition updateBatteryState :: "StateAttribute list \<Rightarrow> VacuumInstance \<Rightarrow> VacuumInstance \<times> event list" where
  "updateBatteryState attributes vacuum =
     (case findBattery attributes of
        None \<Rightarrow> (vacuum, [])
      | Some (level, flag) \<Rightarrow>
          (let percent = batPercentRemaining level;
               chargeState = batChargeState flag;
               batteryChanged = strictlyDiffers (lastBatteryLevel vacuum) percent;
               chargeStateChanged = (lastBatteryChargeState vacuum \<noteq> Some chargeState);
               (vacuum1, es1) =
                 (if initialStatePending vacuum \<or> batteryChanged
                  then (vacuum\<lparr>lastBatteryLevel := Some percent\<rparr>,
                        [Log Info ''Battery'',
                         SetAttribute ''PowerSource'' ''batPercentRemaining'' percent])
                  else (vacuum, []));
               (vacuum2, es2) =
                 (if initialStatePending vacuum1 \<or> chargeStateChanged
                  then (vacuum1\<lparr>lastBatteryChargeState := Some chargeState\<rparr>,
                        [Log Info ''Battery charge state'',
                         SetAttribute ''PowerSource'' ''batChargeState'' (JNum chargeState)])
                  else (vacuum1, []))
           in (vacuum2, es1 @ es2)))"

text \<open>
  Lines 950--977, the status part: operational state, then run mode. On a status record
  without a string \<^verbatim>\<open>value\<close> the first call of a mapper raises, before any write.
\<close>

definition updateStatusState ::
  "StateAttribute list \<Rightarrow> VacuumInstance \<Rightarrow> (VacuumInstance \<times> event list) outcome" where
  "updateStatusState attributes vacuum =
     (case findStatus attributes of
        None \<Rightarrow> Returned (vacuum, [])
      | Some None \<Rightarrow> Threw (vacuum, [])
      | Some (Some status) \<Rightarrow>
          (let operationalState =
                 mapValetudoStatusToOperationalState status (findDockStatus attributes);
               operationalStateChanged =
                 strictlyDiffers (lastOperationalState vacuum) operationalState;
               (vacuum1, es1) =
                 (if initialStatePending vacuum \<or> operationalStateChanged
                  then (vacuum\<lparr>lastOperationalState := Some operationalState\<rparr>,
                        [Log Info ''Operational state'',
                         SetAttribute ''RvcOperationalState'' ''operationalState'' operationalState])
                  else (vacuum, []));
               runMode = mapValetudoStatusToRunMode status;
               runModeChanged = (lastRunMode vacuum1 \<noteq> Some runMode);
               (vacuum2, es2) =
                 (if initialStatePending vacuum1 \<or> runModeChanged
                  then (vacuum1\<lparr>lastRunMode := Some runMode\<rparr>,
                        [Log Info ''Run mode'',
                         SetAttribute ''RvcRunMode'' ''currentMode'' (JNum runMode)])
                  else (vacuum1, []))
           in Returned (vacuum2, es1 @ es2)))"

text \<open>Lines 979--983: the pending flag is cleared after the attribute pass.\<close>

definition clearInitialStatePending :: "VacuumInstance \<Rightarrow> VacuumInstance \<times> event list" where
  "clearInitialStatePending vacuum =
     (if initialStatePending vacuum
      then (vacuum\<lparr>initialStatePending := False\<rparr>, [Log Debug ''Initial state set successfully''])
      else (vacuum, []))"

text \<open>
  What the outside world answers to one call of \<^verbatim>\<open>refreshMapCacheForVacuum\<close>: the
  outcome of the request of \<^verbatim>\<open>getMapDataWithTimeout\<close> and the two readings of
  \<^verbatim>\<open>Date.now()\<close>, in \<^verbatim>\<open>createCachedLayers\<close> and for the validity horizon.
\<close>

record refresh_env =
  mapData :: "MapData option fetched"
  now_created :: int
  now_horizon :: int

text \<open>
  \<^verbatim>\<open>createCachedLayers\<close> (\<^verbatim>\<open>valetudo-client.ts\<close>, lines 566--574) and
  \<^verbatim>\<open>refreshMapCacheForVacuum\<close> (\<^verbatim>\<open>module.ts\<close>, lines 1059--1069).
\<close>

definition createCachedLayers :: "MapData \<Rightarrow> int \<Rightarrow> CachedMapLayers option" where
  "createCachedLayers md now =
     (case map_metaData_version md of
        None \<Rightarrow> None
      | Some v \<Rightarrow> Some \<lparr>layers = map_layers md, pixelSize = map_pixelSize md,
                        timestamp = now, version = v\<rparr>)"

definition refreshMapCacheForVacuum ::
  "PlatformConfig \<Rightarrow> refresh_env \<Rightarrow> VacuumInstance \<Rightarrow> (VacuumInstance \<times> event list) outcome" where
  "refreshMapCacheForVacuum config renv vacuum =
     (let refreshHours =
            max (1 / 10) (min 24 (case mapCache_refreshIntervalHours config of
                                    Some h \<Rightarrow> h | None \<Rightarrow> 1));
          (result, clientLines) = clientGet ''map data'' (mapData renv)
      in case result of
           None \<Rightarrow> Returned (vacuum, clientLines)
         | Some md \<Rightarrow>
             (case createCachedLayers md (now_created renv) of
                None \<Rightarrow> Threw (vacuum, clientLines)
              | Some cache \<Rightarrow>
                  Returned (vacuum\<lparr>mapLayersCache := Some cache,
                                   mapCacheValidUntil :=
                                     real_of_int (now_horizon renv) + refreshHours * 60 * 60 * 1000\<rparr>,
                            clientLines @ [Log Debug ''Map cache refreshed''])))"

text \<open>
  What the outside world answers during one poll cycle, one field per call site, in
  program order.
\<close>

record cycle_env =
  stateAttributes :: attributes_response
  now_cacheCheck :: int
  refresh1 :: refresh_env
  positionData :: "MapPositionData option fetched"
  refresh2 :: refresh_env
  now_consumables :: int
  consumables :: "ValetudoConsumable list option fetched"
  now_lastSeen :: int

text \<open>
  Line 554 of \<^verbatim>\<open>valetudo-client.ts\<close>: the debug line that \<^verbatim>\<open>findSegmentAtPositionCached\<close>
  writes when more than one segment contains the point.
\<close>

definition multipleSegmentsLine :: "CachedMapLayers \<Rightarrow> real \<Rightarrow> real \<Rightarrow> event list" where
  "multipleSegmentsLine cachedLayers x y =
     (if length (matchingSegments x y
                   (filter (\<lambda>layer. layer_type layer = ''segment'') (layers cachedLayers))) > 1
      then [Log Debug ''Multiple segments'']
      else [])"

text \<open>
  Lines 1009--1035: from the position payload to the published area. A pixel size of zero
  makes the quotient infinite or \<^verbatim>\<open>NaN\<close>, which lies in no bounding box.
\<close>

definition locateRobot :: "MapEntity list \<Rightarrow> VacuumInstance \<Rightarrow> VacuumInstance \<times> event list" where
  "locateRobot ents vacuum =
     (case find (\<lambda>entity. entity_type entity = ''robot_position'') ents of
        None \<Rightarrow> (vacuum, [])
      | Some robotEntity \<Rightarrow>
          (case mapLayersCache vacuum of
             None \<Rightarrow> (vacuum, [])
           | Some cache \<Rightarrow>
               if length (points robotEntity) \<ge> 2
               then (let (currentSegment, clientLines) =
                           (if pixelSize cache = 0 then (None, [])
                            else (findSegmentAtPositionCached cache
                                    (real_of_int (js_round (points robotEntity ! 0 / pixelSize cache)))
                                    (real_of_int (js_round (points robotEntity ! 1 / pixelSize cache))),
                                  multipleSegmentsLine cache
                                    (real_of_int (js_round (points robotEntity ! 0 / pixelSize cache)))
                                    (real_of_int (js_round (points robotEntity ! 1 / pixelSize cache)))))
                     in case currentSegment of
                          None \<Rightarrow> (vacuum, clientLines)
                        | Some seg \<Rightarrow>
                            (case find (\<lambda>(areaId, segmentInfo). seg_id segmentInfo = segmentId seg)
                                    (areaToSegmentMap vacuum) of
                               None \<Rightarrow> (vacuum, clientLines)
                             | Some (foundAreaId, segmentInfo) \<Rightarrow>
                                 if lastCurrentArea vacuum \<noteq> Some foundAreaId
                                 then (vacuum\<lparr>lastCurrentArea := Some foundAreaId\<rparr>,
                                       clientLines
                                       @ [Log Info ''Location'',
                                          SetAttribute ''ServiceArea'' ''currentArea''
                                            (JNum (int foundAreaId))])
                                 else (vacuum, clientLines)))
               else (vacuum, [])))"

text \<open>
  Sequencing of two computations that may raise: the second runs on the state the first
  returned; an exception of either ends the sequence; the traces are concatenated.
\<close>

definition andThen ::
  "('s \<times> event list) outcome \<Rightarrow> ('s \<Rightarrow> ('s \<times> event list) outcome) \<Rightarrow> ('s \<times> event list) outcome" where
  "andThen r f =
     (case r of
        Threw x \<Rightarrow> Threw x
      | Returned (s, es) \<Rightarrow>
          (case f s of
             Returned (s', es') \<Rightarrow> Returned (s', es @ es')
           | Threw (s', es') \<Rightarrow> Threw (s', es @ es')))"

text \<open>Lines 992--995: the cache is built when there is none or its horizon has passed.\<close>

definition ensureMapCache ::
  "PlatformConfig \<Rightarrow> cycle_env \<Rightarrow> VacuumInstance \<Rightarrow> (VacuumInstance \<times> event list) outcome" where
  "ensureMapCache config env vacuum =
     (if mapLayersCache vacuum = None
         \<or> real_of_int (now_cacheCheck env) > mapCacheValidUntil vacuum
      then refreshMapCacheForVacuum config (refresh1 env) vacuum
      else Returned (vacuum, []))"

text \<open>Lines 1003--1007: the cache is rebuilt when the payload reports another map version.\<close>

definition refreshOnVersionChange ::
  "PlatformConfig \<Rightarrow> cycle_env \<Rightarrow> MapPositionData \<Rightarrow> CachedMapLayers \<Rightarrow> VacuumInstance
     \<Rightarrow> (VacuumInstance \<times> event list) outcome" where
  "refreshOnVersionChange config env pd cache vacuum =
     (if pos_metaData_version pd \<noteq> None \<and> pos_metaData_version pd \<noteq> Some (version cache)
      then andThen (Returned (vacuum, [Log Warn ''Map version changed'']))
             (refreshMapCacheForVacuum config (refresh2 env))
      else Returned (vacuum, []))"

text \<open>
  \<^verbatim>\<open>getMapPositionData\<close> (\<^verbatim>\<open>valetudo-client.ts\<close>, lines 502--516) reads
  \<^verbatim>\<open>mapData.entities\<close> inside its own \<^verbatim>\<open>try\<close>: on a \<^verbatim>\<open>null\<close> body that read raises,
  and the method writes its error line and returns \<^verbatim>\<open>null\<close> as for a failed request.
\<close>

fun getMapPositionData :: "MapPositionData option fetched \<Rightarrow> MapPositionData option \<times> event list" where
  "getMapPositionData Failed =
     (None, [Log Err ''HTTP GET'', Log Err ''Error fetching position data''])"
| "getMapPositionData (Body None) = (None, [Log Err ''Error fetching position data''])"
| "getMapPositionData (Body (Some pd)) = (Some pd, [])"

text \<open>Lines 992--1037: the body of the \<^verbatim>\<open>try\<close> block of position tracking.\<close>

definition positionTrackingBody ::
  "PlatformConfig \<Rightarrow> cycle_env \<Rightarrow> VacuumInstance \<Rightarrow> (VacuumInstance \<times> event list) outcome" where
  "positionTrackingBody config env vacuum =
     andThen (ensureMapCache config env vacuum)
       (\<lambda>vacuum1.
          case mapLayersCache vacuum1 of
            None \<Rightarrow> Returned (vacuum1, [Log Debug ''Map cache not available''])
          | Some cache \<Rightarrow>
              (case getMapPositionData (positionData env) of
                 (None, clientLines) \<Rightarrow> Returned (vacuum1, clientLines)
               | (Some pd, clientLines) \<Rightarrow>
                   andThen (Returned (vacuum1, clientLines))
                     (\<lambda>vacuum1.
                        andThen (refreshOnVersionChange config env pd cache vacuum1)
                          (\<lambda>vacuum2.
                             case entities pd of
                               None \<Rightarrow> Threw (vacuum2, [])
                             | Some ents \<Rightarrow> Returned (locateRobot ents vacuum2)))))"

text \<open>Lines 989--1041: position tracking with its \<^verbatim>\<open>try\<close>/\<^verbatim>\<open>catch\<close>.\<close>

definition positionTracking ::
  "PlatformConfig \<Rightarrow> cycle_env \<Rightarrow> VacuumInstance \<Rightarrow> VacuumInstance \<times> event list" where
  "positionTracking config env vacuum =
     (if positionTracking_enabled config \<noteq> Some False \<and> length (areaToSegmentMap vacuum) > 0
      then (case positionTrackingBody config env vacuum of
              Returned r \<Rightarrow> r
            | Threw (vacuum1, es) \<Rightarrow> (vacuum1, es @ [Log Debug ''Position tracking error'']))
      else (vacuum, []))"

text \<open>Lines 1043--1046.\<close>

definition consumablesStep ::
  "PlatformConfig \<Rightarrow> cycle_env \<Rightarrow> VacuumInstance \<Rightarrow> VacuumInstance \<times> event list" where
  "consumablesStep config env vacuum =
     (if length (consumableMap vacuum) > 0
      then updateConsumableStatesForVacuum config (now_consumables env) (consumables env) vacuum
      else (vacuum, []))"

text \<open>
  \<^verbatim>\<open>updateVacuumState\<close>, lines 903--1054: one poll cycle, returning the device record
  after the cycle and the cycle's trace. The outer \<^verbatim>\<open>catch\<close> (lines 1050--1053) is
  reached when \<^verbatim>\<open>attributes.find\<close> raises on a body that is not an array, and when the
  status part raises on a status record without a string value; what the cycle has
  written and stored by then stays.
\<close>

definition updateVacuumState ::
  "PlatformConfig \<Rightarrow> cycle_env \<Rightarrow> VacuumInstance \<Rightarrow> VacuumInstance \<times> event list" where
  "updateVacuumState config env vacuum =
     (if \<not> device vacuum then (vacuum, [])
      else case stateAttributes env of
             FetchFailed \<Rightarrow>
               (vacuum, [Log Err ''HTTP GET'', Log Err ''Error fetching state attributes'',
                         Log Warn ''Failed to fetch state attributes''])
           | NoData \<Rightarrow> (vacuum, [Log Warn ''Failed to fetch state attributes''])
           | NotAnArray \<Rightarrow> (vacuum\<lparr>online := False\<rparr>, [Log Err ''Error updating state''])
           | Attributes attributes \<Rightarrow>
               (let (vacuum1, es1) = updateBatteryState attributes vacuum
                in case updateStatusState attributes vacuum1 of
                     Threw (vacuum2, es2) \<Rightarrow>
                       (vacuum2\<lparr>online := False\<rparr>, es1 @ es2 @ [Log Err ''Error updating state''])
                   | Returned (vacuum2, es2) \<Rightarrow>
                       (let (vacuum3, es3) = clearInitialStatePending vacuum2;
                            (vacuum4, es4) = positionTracking config env vacuum3;
                            (vacuum5, es5) = consumablesStep config env vacuum4
                        in (vacuum5\<lparr>lastSeen := now_lastSeen env, online := True\<rparr>,
                            es1 @ es2 @ es3 @ es4 @ es5))))"

text \<open>
  \<^verbatim>\<open>setInitialVacuumState\<close>, lines 847--898, which \<^verbatim>\<open>createDeviceForVacuum\<close> runs once
  before polling starts: it writes what the snapshot holds and stores it as last
  published, and leaves the pending flag alone. Its \<^verbatim>\<open>catch\<close> only logs.
\<close>

definition setInitialVacuumState ::
  "attributes_response \<Rightarrow> VacuumInstance \<Rightarrow> VacuumInstance \<times> event list" where
  "setInitialVacuumState response vacuum =
     (if \<not> device vacuum then (vacuum, [])
      else case response of
             FetchFailed \<Rightarrow>
               (vacuum, [Log Err ''HTTP GET'', Log Err ''Error fetching state attributes'',
                         Log Warn ''Failed to fetch initial state attributes''])
           | NoData \<Rightarrow> (vacuum, [Log Warn ''Failed to fetch initial state attributes''])
           | NotAnArray \<Rightarrow> (vacuum, [Log Err ''Error setting initial state''])
           | Attributes attributes \<Rightarrow>
               (let (vacuum1, es1) =
                      (case findBattery attributes of
                         None \<Rightarrow> (vacuum, [])
                       | Some (level, flag) \<Rightarrow>
                           (vacuum\<lparr>lastBatteryLevel := Some (batPercentRemaining level),
                                   lastBatteryChargeState := Some (batChargeState flag)\<rparr>,
                            [SetAttribute ''PowerSource'' ''batPercentRemaining''
                               (batPercentRemaining level),
                             SetAttribute ''PowerSource'' ''batChargeState''
                               (JNum (batChargeState flag)),
                             Log Info ''Initial battery'']))
                in case findStatus attributes of
                     None \<Rightarrow> (vacuum1, es1)
                   | Some None \<Rightarrow> (vacuum1, es1 @ [Log Err ''Error setting initial state''])
                   | Some (Some status) \<Rightarrow>
                       (let operationalState =
                              mapValetudoStatusToOperationalState status (findDockStatus attributes);
                            runMode = mapValetudoStatusToRunMode status
                        in (vacuum1\<lparr>lastOperationalState := Some operationalState,
                                     lastRunMode := Some runMode\<rparr>,
                            es1 @ [SetAttribute ''RvcOperationalState'' ''operationalState''
                                     operationalState,
                                   SetAttribute ''RvcRunMode'' ''currentMode'' (JNum runMode),
                                   Log Info ''Initial state'']))))"

text \<open>
  The writes of a trace to the four tracked attributes (battery level, battery charge
  state, operational state, run mode), in order.
\<close>

fun isTrackedWrite :: "event \<Rightarrow> bool" where
  "isTrackedWrite (SetAttribute cluster attribute v) =
     ((cluster = ''PowerSource'' \<and> attribute = ''batPercentRemaining'')
      \<or> (cluster = ''PowerSource'' \<and> attribute = ''batChargeState'')
      \<or> (cluster = ''RvcOperationalState'' \<and> attribute = ''operationalState'')
      \<or> (cluster = ''RvcRunMode'' \<and> attribute = ''currentMode''))"
| "isTrackedWrite _ = False"

definition trackedWrites :: "event list \<Rightarrow> event list" where
  "trackedWrites tr = filter isTrackedWrite tr"

text \<open>All writes to the downstream sink in a trace.\<close>

fun isWrite :: "event \<Rightarrow> bool" where
  "isWrite (Log l m) = False"
| "isWrite _ = True"

text \<open>
  The values that a cycle computes from a snapshot, where the snapshot holds the record
  they are computed from.
\<close>

definition computedBatteryLevel :: "StateAttribute list \<Rightarrow> js_value option" where
  "computedBatteryLevel attributes =
     map_option (\<lambda>(level, flag). batPercentRemaining level) (findBattery attributes)"

definition computedBatteryChargeState :: "StateAttribute list \<Rightarrow> int option" where
  "computedBatteryChargeState attributes =
     map_option (\<lambda>(level, flag). batChargeState flag) (findBattery attributes)"

definition computedOperationalState :: "StateAttribute list \<Rightarrow> js_value option" where
  "computedOperationalState attributes =
     (case findStatus attributes of
        Some (Some status) \<Rightarrow>
          Some (mapValetudoStatusToOperationalState status (findDockStatus attributes))
      | _ \<Rightarrow> None)"

definition computedRunMode :: "StateAttribute list \<Rightarrow> int option" where
  "computedRunMode attributes =
     (case findStatus attributes of
        Some (Some status) \<Rightarrow> Some (mapValetudoStatusToRunMode status)
      | _ \<Rightarrow> None)"

text \<open>
  The write of one tracked attribute under change gating: none without a computed value,
  none when the computed value is strictly equal to the stored one.
\<close>

definition gatedWrite :: "string \<Rightarrow> string \<Rightarrow> js_value option \<Rightarrow> js_value option \<Rightarrow> event list" where
  "gatedWrite cluster attribute computed stored =
     (case computed of
        None \<Rightarrow> []
      | Some v \<Rightarrow> if strictlyDiffers stored v then [SetAttribute cluster attribute v] else [])"

text \<open>The write of one tracked attribute on the forced initial publication.\<close>

definition forcedWrite :: "string \<Rightarrow> string \<Rightarrow> js_value option \<Rightarrow> event list" where
  "forcedWrite cluster attribute computed =
     (case computed of None \<Rightarrow> [] | Some v \<Rightarrow> [SetAttribute cluster attribute v])"

text \<open>The tracked writes of a change-gated cycle and of the forced initial cycle.\<close>

definition trackedWritesGated :: "StateAttribute list \<Rightarrow> VacuumInstance \<Rightarrow> event list" where
  "trackedWritesGated attributes vacuum =
     gatedWrite ''PowerSource'' ''batPercentRemaining''
         (computedBatteryLevel attributes) (lastBatteryLevel vacuum)
     @ gatedWrite ''PowerSource'' ''batChargeState''
         (map_option JNum (computedBatteryChargeState attributes))
         (map_option JNum (lastBatteryChargeState vacuum))
     @ gatedWrite ''RvcOperationalState'' ''operationalState''
         (computedOperationalState attributes) (lastOperationalState vacuum)
     @ gatedWrite ''RvcRunMode'' ''currentMode''
         (map_option JNum (computedRunMode attributes))
         (map_option JNum (lastRunMode vacuum))"

definition trackedWritesForced :: "StateAttribute list \<Rightarrow> event list" where
  "trackedWritesForced attributes =
     forcedWrite ''PowerSource'' ''batPercentRemaining'' (computedBatteryLevel attributes)
     @ forcedWrite ''PowerSource'' ''batChargeState''
         (map_option JNum (computedBatteryChargeState attributes))
     @ forcedWrite ''RvcOperationalState'' ''operationalState''
         (computedOperationalState attributes)
     @ forcedWrite ''RvcRunMode'' ''currentMode''
         (map_option JNum (computedRunMode attributes))"

text \<open>A stored last-published value after a cycle that computed \<open>computed\<close>.\<close>

definition storedAfter :: "'a option \<Rightarrow> 'a option \<Rightarrow> 'a option" where
  "storedAfter computed stored = (case computed of None \<Rightarrow> stored | Some v \<Rightarrow> Some v)"

text \<open>
  Consecutive poll cycles of one device (the timer of \<^verbatim>\<open>startPollingForVacuum\<close>, lines
  612--629, runs them one after the other): the record after the last cycle.
\<close>

fun pollCycles :: "PlatformConfig \<Rightarrow> cycle_env list \<Rightarrow> VacuumInstance \<Rightarrow> VacuumInstance" where
  "pollCycles config [] vacuum = vacuum"
| "pollCycles config (env # envs) vacuum =
     pollCycles config envs (fst (updateVacuumState config env vacuum))"

text \<open>Fields that position tracking and the consumable check leave alone.\<close>

definition trackedFieldsKept :: "VacuumInstance \<Rightarrow> VacuumInstance \<Rightarrow> bool" where
  "trackedFieldsKept v v' =
     (device v' = device v \<and> lastBatteryLevel v' = lastBatteryLevel v
      \<and> lastBatteryChargeState v' = lastBatteryChargeState v
      \<and> lastOperationalState v' = lastOperationalState v
      \<and> lastRunMode v' = lastRunMode v
      \<and> initialStatePending v' = initialStatePending v
      \<and> online v' = online v \<and> lastSeen v' = lastSeen v)"

definition consumableFieldsKept :: "VacuumInstance \<Rightarrow> VacuumInstance \<Rightarrow> bool" where
  "consumableFieldsKept v v' =
     (consumableMap v' = consumableMap v \<and> lastConsumablesCheck v' = lastConsumablesCheck v)"

text \<open>A property of the state and trace that a computation ends with, returning or raising.\<close>

definition endsWith :: "('a \<Rightarrow> bool) \<Rightarrow> 'a outcome \<Rightarrow> bool" where
  "endsWith P r = (case r of Returned x \<Rightarrow> P x | Threw x \<Rightarrow> P x)"

text \<open>
  The error-level lines that the client writes for a request of a sub-step that failed.
\<close>

definition clientErrorLines :: "string set" where
  "clientErrorLines =
     {''HTTP GET'', ''Error fetching map data'', ''Error fetching position data'',
      ''Error fetching consumables''}"

text \<open>
  Events that are neither a write to a tracked attribute nor an error-level line of the
  platform's own.
\<close>

fun benign :: "event \<Rightarrow> bool" where
  "benign (Log l m) = (l = Err \<longrightarrow> m \<in> clientErrorLines)"
| "benign e = (\<not> isTrackedWrite e)"

definition quietFrom :: "VacuumInstance \<Rightarrow> VacuumInstance \<times> event list \<Rightarrow> bool" where
  "quietFrom v r =
     (trackedFieldsKept v (fst r) \<and> consumableFieldsKept v (fst r) \<and> list_all benign (snd r))"

text \<open>Whether a computation raised, and the state and trace it ended with.\<close>

fun raised :: "'a outcome \<Rightarrow> bool" where
  "raised (Threw x) = True"
| "raised (Returned x) = False"

fun reached :: "'a outcome \<Rightarrow> 'a" where
  "reached (Threw x) = x"
| "reached (Returned x) = x"

text \<open>
  The record after lines 915--983 of a cycle whose status part returned: battery part,
  status part, pending flag cleared.
\<close>

definition afterAttributePass :: "StateAttribute list \<Rightarrow> VacuumInstance \<Rightarrow> VacuumInstance" where
  "afterAttributePass attributes vacuum =
     fst (clearInitialStatePending
            (fst (reached (updateStatusState attributes
                             (fst (updateBatteryState attributes vacuum))))))"

text \<open>
  The attribute pass of a cycle completes unless the snapshot's status record has no
  string value.
\<close>

definition attributePassCompletes :: "StateAttribute list \<Rightarrow> bool" where
  "attributePassCompletes attributes = (findStatus attributes \<noteq> Some None)"

section \<open>Notions used in the statements, and example data\<close>

text \<open>The log lines of a trace.\<close>

fun isLog :: "event \<Rightarrow> bool" where
  "isLog (Log l m) = True"
| "isLog _ = False"

text \<open>
  The notions of the region lookup as the specification words them, written out on the
  coordinates and independent of the functions above: a bounding box contains a point
  when both coordinates lie between the box's minimum and maximum, the four edges
  included; the distance of a point from a layer is the Euclidean distance from the
  recorded midpoint of the layer's box; the candidates are the layers of type
  \<^verbatim>\<open>segment\<close> whose box contains the point, in cache order.
\<close>

definition boxContains :: "MapLayerDimensions \<Rightarrow> real \<Rightarrow> real \<Rightarrow> bool" where
  "boxContains box x y =
     (x_min box \<le> x \<and> x \<le> x_max box \<and> y_min box \<le> y \<and> y \<le> y_max box)"

definition euclideanDistance :: "real \<times> real \<Rightarrow> real \<times> real \<Rightarrow> real" where
  "euclideanDistance p q = sqrt ((fst p - fst q)\<^sup>2 + (snd p - snd q)\<^sup>2)"

definition midpointDistance :: "MapLayer \<Rightarrow> real \<Rightarrow> real \<Rightarrow> real" where
  "midpointDistance l x y =
     euclideanDistance (x, y) (x_mid (dimensions l), y_mid (dimensions l))"

definition containingSegments :: "CachedMapLayers \<Rightarrow> real \<Rightarrow> real \<Rightarrow> MapLayer list" where
  "containingSegments cache x y =
     filter (\<lambda>l. layer_type l = ''segment'' \<and> boxContains (dimensions l) x y) (layers cache)"

definition fallbackCleanMode :: "int \<Rightarrow> int \<Rightarrow> CleanMode" where
  "fallbackCleanMode tagVacuum tagAuto =
     \<lparr>label = ''Vacuum'', mode = 66, modeTags = [tagVacuum, tagAuto]\<rparr>"

definition exampleLayer :: "string \<Rightarrow> string \<Rightarrow> real \<Rightarrow> real \<Rightarrow> real \<Rightarrow> real \<Rightarrow> MapLayer" where
  "exampleLayer ty sid xlo xhi ylo yhi =
     \<lparr>layer_type = ty, segmentId = sid,
      dimensions = \<lparr>x_min = xlo, x_max = xhi, x_mid = (xlo + xhi) / 2,
                    y_min = ylo, y_max = yhi, y_mid = (ylo + yhi) / 2\<rparr>\<rparr>"

text \<open>
  A floor layer over everything and two overlapping rooms with midpoints \<open>(80, 50)\<close> and
  \<open>(120, 50)\<close>.
\<close>

definition exampleCache :: CachedMapLayers where
  "exampleCache =
     \<lparr>layers = [exampleLayer ''floor'' ''0'' 0 1000 0 1000,
                exampleLayer ''segment'' ''1'' 50 110 0 100,
                exampleLayer ''segment'' ''2'' 90 150 0 100],
      pixelSize = 5, timestamp = 0, version = 1\<rparr>"

text \<open>
  A floor layer over everything, a room \<open>A\<close> with midpoint \<open>(80, 50)\<close> and a room \<open>B\<close> with
  midpoint \<open>(100, 90)\<close> that overlaps it.
\<close>

definition roomA :: MapLayer where
  "roomA = exampleLayer ''segment'' ''A'' 50 110 0 100"

definition roomB :: MapLayer where
  "roomB = exampleLayer ''segment'' ''B'' 90 110 40 140"

definition edgeCache :: CachedMapLayers where
  "edgeCache =
     \<lparr>layers = [exampleLayer ''floor'' ''0'' 0 1000 (-1000) 1000, roomA, roomB],
      pixelSize = 5, timestamp = 0, version = 1\<rparr>"

definition exampleModes :: "CleanMode list" where
  "exampleModes =
     [\<lparr>label = ''Vacuum'', mode = 66, modeTags = [1]\<rparr>,
      \<lparr>label = ''Mop'', mode = 31, modeTags = [2]\<rparr>,
      \<lparr>label = ''Vacuum'', mode = 5, modeTags = [2, 1]\<rparr>]"

text \<open>
  A device record as \<^verbatim>\<open>addVacuum\<close> creates it (lines 312--337), with the Matter device
  in place, and one with a room and a tracked consumable without contact sensor.
\<close>

definition newVacuum :: VacuumInstance where
  "newVacuum =
     \<lparr>device = True, areaToSegmentMap = [], consumableMap = [], mapLayersCache = None,
      mapCacheValidUntil = 0, lastCurrentArea = None, lastConsumablesCheck = 0,
      lastBatteryLevel = None, lastBatteryChargeState = None, lastOperationalState = None,
      lastRunMode = None, initialStatePending = True, lastSeen = 0, online = True\<rparr>"

definition mainBrush :: "real \<Rightarrow> ValetudoConsumable" where
  "mainBrush minutes =
     \<lparr>consumable_type = ''brush'', subType = ''main'',
      remaining = Some \<lparr>rem_value = minutes, rem_unit = ''minutes''\<rparr>\<rparr>"

definition exampleVacuum :: VacuumInstance where
  "exampleVacuum =
     newVacuum\<lparr>areaToSegmentMap := [(1, \<lparr>seg_id = ''1'', seg_name = ''Kitchen''\<rparr>)],
               consumableMap := [(''Main Brush'',
                   \<lparr>endpoint = False, consumable = mainBrush 200, lastState = None\<rparr>)]\<rparr>"

definition exampleConfig :: PlatformConfig where
  "exampleConfig =
     \<lparr>positionTracking_enabled = None, mapCache_refreshIntervalHours = None,
      consumables_maxLifetimes = None, consumables_warningThreshold = None\<rparr>"

text \<open>A cycle in which every request but the state attributes yields nothing.\<close>

definition quietEnv :: "attributes_response \<Rightarrow> cycle_env" where
  "quietEnv response =
     \<lparr>stateAttributes = response, now_cacheCheck = 10000,
      refresh1 = \<lparr>mapData = Body None, now_created = 10000, now_horizon = 10000\<rparr>,
      positionData = Body None,
      refresh2 = \<lparr>mapData = Body None, now_created = 10000, now_horizon = 10000\<rparr>,
      now_consumables = 11000, consumables = Body None, now_lastSeen = 12000\<rparr>"

definition snapshotDocked :: "real \<Rightarrow> StateAttribute list" where
  "snapshotDocked level =
     [OtherStateAttribute ''AttachmentStateAttribute'',
      BatteryStateAttribute (Some level) ''charged'',
      StatusStateAttribute (Some ''docked''),
      DockStatusStateAttribute (Some ''idle'')]"


text \<open>A snapshot with a status record only.\<close>

definition snapshotStatusOnly :: "StateAttribute list" where
  "snapshotStatusOnly = [StatusStateAttribute (Some ''docked'')]"

text \<open>
  The record with which polling starts after \<^verbatim>\<open>setInitialVacuumState\<close> has published
  the docked snapshot at full battery: the four last-published values are stored, the
  pending flag is still set.
\<close>

definition primedVacuum :: VacuumInstance where
  "primedVacuum = fst (setInitialVacuumState (Attributes (snapshotDocked 100)) newVacuum)"




text \<open>A configuration whose warning threshold is set to zero percent.\<close>

definition thresholdZeroConfig :: PlatformConfig where
  "thresholdZeroConfig = exampleConfig\<lparr>consumables_warningThreshold := Some 0\<rparr>"

section \<open>Enumeration mapper: properties\<close>

lemma operationalState_table:
  assumes "toLowerCase status \<notin> set Object_prototype_names"
  shows "mapValetudoStatusToOperationalState status None =
     JNum (if toLowerCase status \<in> {''idle'', ''docked'', ''moving''} then Docked
      else if toLowerCase status \<in> {''cleaning'', ''manual_control''} then Running
      else if toLowerCase status = ''returning'' then SeekingCharger
      else if toLowerCase status = ''paused'' then Paused
      else if toLowerCase status = ''error'' then Error
      else if toLowerCase status = ''charging'' then Charging
      else Stopped)"
  using assms
  by (simp add: mapValetudoStatusToOperationalState_def statusMap_def statusMap_own_def Let_def)

lemma runMode_cleaning_iff:
  "mapValetudoStatusToRunMode status = RvcRunMode_Cleaning \<longleftrightarrow> toLowerCase status = ''cleaning''"
  by (simp add: mapValetudoStatusToRunMode_def Let_def RvcRunMode_Cleaning_def RvcRunMode_Idle_def)

text \<open>
  Claim C2. The status mappers are total functions of the status string with a fixed
  table and the defaults \<open>Stopped\<close> and \<open>Idle\<close> outside it. For the run mode this holds
  (\<open>runMode_cleaning_iff\<close>), and for the operational state it holds on every status whose
  lower-case form is not the name of a member of \<^verbatim>\<open>Object.prototype\<close>
  (\<open>operationalState_table\<close>). On the status \<^verbatim>\<open>constructor\<close>, which is outside the
  known set, the table read finds the inherited member and the function returns it
  instead of \<open>Stopped\<close>.
\<close>

theorem operationalState_of_inherited_property_name:
  "mapValetudoStatusToOperationalState ''constructor'' None = JObjectPrototypeMember ''constructor''
   \<and> mapValetudoStatusToOperationalState ''constructor'' None \<noteq> JNum Stopped
   \<and> map_of statusMap_own (toLowerCase ''constructor'') = None"
  by code_simp

section \<open>Spatial index cache: properties\<close>

lemma hd_insort_key:
  "hd (insort_key f x xs) = (if xs = [] \<or> f x \<le> f (hd xs) then x else hd xs)"
  by (cases xs) auto

lemma sort_key_Nil_iff: "sort_key f xs = [] \<longleftrightarrow> xs = []"
  by (metis length_sort list.size(3) length_0_conv)

text \<open>The head of a stably sorted list is the first element with the least key.\<close>

lemma first_min_sort_key:
  "xs \<noteq> [] \<Longrightarrow> \<exists>i<length xs. hd (sort_key f xs) = xs ! i
      \<and> (\<forall>j<length xs. f (xs ! i) \<le> f (xs ! j)) \<and> (\<forall>j<i. f (xs ! i) < f (xs ! j))"
proof (induction xs)
  case Nil
  then show ?case by simp
next
  case (Cons x xs)
  show ?case
  proof (cases "xs = []")
    case True
    then show ?thesis by simp
  next
    case False
    from Cons.IH [OF False] obtain i where i: "i < length xs"
      and h: "hd (sort_key f xs) = xs ! i"
      and mn: "\<forall>j<length xs. f (xs ! i) \<le> f (xs ! j)"
      and st: "\<forall>j<i. f (xs ! i) < f (xs ! j)" by blast
    have ne: "sort_key f xs \<noteq> []" using False by (simp add: sort_key_Nil_iff)
    show ?thesis
    proof (cases "f x \<le> f (xs ! i)")
      case True
      have "hd (sort_key f (x # xs)) = x" using True h ne by (simp add: hd_insort_key)
      moreover have "\<forall>j<length (x # xs). f x \<le> f ((x # xs) ! j)"
        using True mn by (auto simp: nth_Cons split: nat.splits intro: order_trans)
      ultimately show ?thesis by (intro exI [of _ 0]) simp
    next
      case False
      have "hd (sort_key f (x # xs)) = xs ! i" using False h ne by (simp add: hd_insort_key)
      moreover have "\<forall>j<length (x # xs). f (xs ! i) \<le> f ((x # xs) ! j)"
        using False mn by (auto simp: nth_Cons split: nat.splits)
      moreover have "\<forall>j<Suc i. f (xs ! i) < f ((x # xs) ! j)"
        using False st by (auto simp: nth_Cons split: nat.splits)
      ultimately show ?thesis using i by (intro exI [of _ "Suc i"]) simp
    qed
  qed
qed

lemma matchingSegments_eq:
  "matchingSegments x y ls = map (\<lambda>s. (s, distanceFromMid s x y)) (filter (\<lambda>s. inBounds s x y) ls)"
  by (induction ls) auto

lemma inBounds_boxContains: "inBounds l x y = boxContains (dimensions l) x y"
  by (simp add: inBounds_def boxContains_def Let_def)

lemma distanceFromMid_midpointDistance: "distanceFromMid l x y = midpointDistance l x y"
  by (simp add: distanceFromMid_def midpointDistance_def euclideanDistance_def Let_def)

lemma matching_containing:
  "matchingSegments x y (filter (\<lambda>layer. layer_type layer = ''segment'') (layers cache))
     = map (\<lambda>s. (s, midpointDistance s x y)) (containingSegments cache x y)"
  by (simp add: matchingSegments_eq containingSegments_def conj_commute
        inBounds_boxContains distanceFromMid_midpointDistance)

lemma findSegment_as_hd:
  "findSegmentAtPositionCached cache x y =
     (if containingSegments cache x y = [] then None
      else Some (fst (hd (sort_key snd
              (map (\<lambda>s. (s, midpointDistance s x y)) (containingSegments cache x y))))))"
proof -
  let ?ms = "map (\<lambda>s. (s, midpointDistance s x y)) (containingSegments cache x y)"
  show ?thesis
  proof (cases ?ms)
    case Nil
    then show ?thesis by (simp add: findSegmentAtPositionCached_def matching_containing)
  next
    case (Cons m rest)
    note outer = Cons
    show ?thesis
    proof (cases rest)
      case Nil
      then show ?thesis using outer
        by (auto simp add: findSegmentAtPositionCached_def matching_containing)
    next
      case (Cons m2 rest2)
      have "sort_key snd ?ms \<noteq> []" using outer by (simp add: sort_key_Nil_iff del: sort_key_simps)
      then obtain c cs where "sort_key snd ?ms = c # cs" by (cases "sort_key snd ?ms") auto
      then show ?thesis using outer Cons
        by (auto simp add: findSegmentAtPositionCached_def matching_containing simp del: sort_key_simps)
    qed
  qed
qed

text \<open>
  Claim C3. With containment and distance as the specification words them
  (\<^const>\<open>boxContains\<close>: both coordinates between minimum and maximum, edges included;
  \<^const>\<open>midpointDistance\<close>: Euclidean distance from the recorded midpoint),
  \<^const>\<open>findSegmentAtPositionCached\<close> returns nothing exactly when no layer of type
  \<^verbatim>\<open>segment\<close> contains the point; a single containing segment is returned; and whatever
  is returned is a layer of the cache of type \<^verbatim>\<open>segment\<close> whose box contains the point, is
  at least as close as every other containing segment, and is strictly closer than every
  containing segment before it in cache order, so that ties go to the earlier layer. A
  layer of another type is never returned.
\<close>

theorem findSegmentAtPositionCached_closest_containing_segment:
  "(findSegmentAtPositionCached cache x y = None \<longleftrightarrow>
      (\<forall>l \<in> set (layers cache).
         layer_type l = ''segment'' \<longrightarrow>
         \<not> (x_min (dimensions l) \<le> x \<and> x \<le> x_max (dimensions l)
            \<and> y_min (dimensions l) \<le> y \<and> y \<le> y_max (dimensions l))))
   \<and> (\<forall>l. containingSegments cache x y = [l] \<longrightarrow> findSegmentAtPositionCached cache x y = Some l)
   \<and> (\<forall>l. findSegmentAtPositionCached cache x y = Some l \<longrightarrow>
        l \<in> set (layers cache) \<and> layer_type l = ''segment''
        \<and> x_min (dimensions l) \<le> x \<and> x \<le> x_max (dimensions l)
        \<and> y_min (dimensions l) \<le> y \<and> y \<le> y_max (dimensions l)
        \<and> (\<exists>i<length (containingSegments cache x y).
              l = containingSegments cache x y ! i
              \<and> (\<forall>j<length (containingSegments cache x y).
                    sqrt ((x - x_mid (dimensions l))\<^sup>2 + (y - y_mid (dimensions l))\<^sup>2)
                    \<le> midpointDistance (containingSegments cache x y ! j) x y)
              \<and> (\<forall>j<i. sqrt ((x - x_mid (dimensions l))\<^sup>2 + (y - y_mid (dimensions l))\<^sup>2)
                          < midpointDistance (containingSegments cache x y ! j) x y)))"
proof -
  let ?cs = "containingSegments cache x y"
  let ?ms = "map (\<lambda>s. (s, midpointDistance s x y)) ?cs"
  have md: "midpointDistance l x y
              = sqrt ((x - x_mid (dimensions l))\<^sup>2 + (y - y_mid (dimensions l))\<^sup>2)" for l
    by (simp add: midpointDistance_def euclideanDistance_def)
  have a: "findSegmentAtPositionCached cache x y = None \<longleftrightarrow>
      (\<forall>l \<in> set (layers cache).
         layer_type l = ''segment'' \<longrightarrow>
         \<not> (x_min (dimensions l) \<le> x \<and> x \<le> x_max (dimensions l)
            \<and> y_min (dimensions l) \<le> y \<and> y \<le> y_max (dimensions l)))"
    by (auto simp add: findSegment_as_hd containingSegments_def filter_empty_conv boxContains_def)
  have b: "\<forall>l. ?cs = [l] \<longrightarrow> findSegmentAtPositionCached cache x y = Some l"
    by (simp add: findSegment_as_hd)
  have c: "findSegmentAtPositionCached cache x y = Some l \<Longrightarrow>
        l \<in> set (layers cache) \<and> layer_type l = ''segment''
        \<and> x_min (dimensions l) \<le> x \<and> x \<le> x_max (dimensions l)
        \<and> y_min (dimensions l) \<le> y \<and> y \<le> y_max (dimensions l)
        \<and> (\<exists>i<length ?cs. l = ?cs ! i
              \<and> (\<forall>j<length ?cs.
                    sqrt ((x - x_mid (dimensions l))\<^sup>2 + (y - y_mid (dimensions l))\<^sup>2)
                    \<le> midpointDistance (?cs ! j) x y)
              \<and> (\<forall>j<i. sqrt ((x - x_mid (dimensions l))\<^sup>2 + (y - y_mid (dimensions l))\<^sup>2)
                          < midpointDistance (?cs ! j) x y))" for l
  proof -
    assume r: "findSegmentAtPositionCached cache x y = Some l"
    then have ne: "?cs \<noteq> []" and l: "l = fst (hd (sort_key snd ?ms))"
      by (auto simp add: findSegment_as_hd split: if_splits)
    from ne have "?ms \<noteq> []" by simp
    from first_min_sort_key [OF this, of snd] obtain i where i: "i < length ?cs"
      and h: "hd (sort_key snd ?ms) = ?ms ! i"
      and mn: "\<forall>j<length ?ms. snd (?ms ! i) \<le> snd (?ms ! j)"
      and st: "\<forall>j<i. snd (?ms ! i) < snd (?ms ! j)" by auto
    have li: "l = ?cs ! i" using l h i by simp
    have mem: "l \<in> set ?cs" using li i by simp
    have p1: "l \<in> set (layers cache) \<and> layer_type l = ''segment''
        \<and> x_min (dimensions l) \<le> x \<and> x \<le> x_max (dimensions l)
        \<and> y_min (dimensions l) \<le> y \<and> y \<le> y_max (dimensions l)"
      using mem by (simp add: containingSegments_def boxContains_def)
    have p2: "\<forall>j<length ?cs. midpointDistance l x y \<le> midpointDistance (?cs ! j) x y"
      using mn i li by simp
    have p3: "\<forall>j<i. midpointDistance l x y < midpointDistance (?cs ! j) x y"
      using st i li by simp
    show ?thesis using p1 p2 p3 i li unfolding md [of l] by blast
  qed
  show ?thesis using a b c by blast
qed

lemmas example_cache_defs = exampleCache_def exampleLayer_def
  findSegmentAtPositionCached_def inBounds_def distanceFromMid_def

lemmas edge_cache_defs = edgeCache_def roomA_def roomB_def exampleLayer_def
  findSegmentAtPositionCached_def inBounds_def distanceFromMid_def

lemmas containing_defs = edgeCache_def roomA_def roomB_def exampleCache_def exampleLayer_def
  containingSegments_def boxContains_def

text \<open>
  Room \<open>A\<close> spans \<open>50..110\<close> by \<open>0..100\<close>, room \<open>B\<close> spans \<open>90..110\<close> by \<open>40..140\<close>. On each
  of the four edges of \<open>A\<close> the point is inside, one step beyond it is outside, and then
  nothing is returned although the floor layer contains the point. At \<open>(100, 50)\<close> both
  rooms contain the point; \<open>A\<close> is at distance \<open>20\<close> and \<open>B\<close>, whose midpoint has the same
  \<open>x\<close>, at distance \<open>40\<close>: \<open>A\<close> is returned. At \<open>(100, 80)\<close> room \<open>B\<close> is closer. In the
  cache of the first example both rooms are at distance \<open>20\<close> from \<open>(100, 50)\<close> and the
  earlier one is returned.
\<close>

theorem findSegmentAtPositionCached_closest_containing_segment_witness:
  "findSegmentAtPositionCached edgeCache 50 20 = Some roomA
   \<and> findSegmentAtPositionCached edgeCache 49 20 = None
   \<and> findSegmentAtPositionCached edgeCache 110 20 = Some roomA
   \<and> findSegmentAtPositionCached edgeCache 111 20 = None
   \<and> findSegmentAtPositionCached edgeCache 60 0 = Some roomA
   \<and> findSegmentAtPositionCached edgeCache 60 (- 1) = None
   \<and> findSegmentAtPositionCached edgeCache 60 100 = Some roomA
   \<and> findSegmentAtPositionCached edgeCache 60 101 = None
   \<and> boxContains (dimensions (exampleLayer ''floor'' ''0'' 0 1000 (-1000) 1000)) 60 101
   \<and> containingSegments edgeCache 60 100 = [roomA]
   \<and> containingSegments edgeCache 100 50 = [roomA, roomB]
   \<and> midpointDistance roomA 100 50 = 20 \<and> midpointDistance roomB 100 50 = 40
   \<and> findSegmentAtPositionCached edgeCache 100 50 = Some roomA
   \<and> containingSegments edgeCache 100 80 = [roomA, roomB]
   \<and> midpointDistance roomB 100 80 = 10 \<and> midpointDistance roomB 100 80 < midpointDistance roomA 100 80
   \<and> findSegmentAtPositionCached edgeCache 100 80 = Some roomB
   \<and> containingSegments exampleCache 100 50
       = [exampleLayer ''segment'' ''1'' 50 110 0 100, exampleLayer ''segment'' ''2'' 90 150 0 100]
   \<and> midpointDistance (exampleLayer ''segment'' ''1'' 50 110 0 100) 100 50
       = midpointDistance (exampleLayer ''segment'' ''2'' 90 150 0 100) 100 50
   \<and> findSegmentAtPositionCached exampleCache 100 50
       = Some (exampleLayer ''segment'' ''1'' 50 110 0 100)"
proof -
  have e1: "findSegmentAtPositionCached edgeCache 50 20 = Some roomA"
    by (simp add: edge_cache_defs)
  have e2: "containingSegments edgeCache 49 20 = []" by (simp add: containing_defs)
  have e3: "findSegmentAtPositionCached edgeCache 110 20 = Some roomA"
    by (simp add: edge_cache_defs)
  have e4: "containingSegments edgeCache 111 20 = []" by (simp add: containing_defs)
  have e5: "findSegmentAtPositionCached edgeCache 60 0 = Some roomA"
    by (simp add: edge_cache_defs)
  have e6: "containingSegments edgeCache 60 (- 1) = []" by (simp add: containing_defs)
  have e7: "containingSegments edgeCache 60 100 = [roomA]" by (simp add: containing_defs)
  have e8: "containingSegments edgeCache 60 101 = []" by (simp add: containing_defs)
  have n2: "findSegmentAtPositionCached edgeCache 49 20 = None"
    by (simp add: edge_cache_defs)
  have n4: "findSegmentAtPositionCached edgeCache 111 20 = None"
    by (simp add: edge_cache_defs)
  have n6: "findSegmentAtPositionCached edgeCache 60 (- 1) = None"
    by (simp add: edge_cache_defs)
  have n8: "findSegmentAtPositionCached edgeCache 60 101 = None"
    by (simp add: edge_cache_defs)
  have f7: "findSegmentAtPositionCached edgeCache 60 100 = Some roomA"
    using findSegmentAtPositionCached_closest_containing_segment [of edgeCache 60 100] e7
    by blast
  have fl: "boxContains (dimensions (exampleLayer ''floor'' ''0'' 0 1000 (-1000) 1000)) 60 101"
    by (simp add: exampleLayer_def boxContains_def)
  have c1: "containingSegments edgeCache 100 50 = [roomA, roomB]" by (simp add: containing_defs)
  have d1: "midpointDistance roomA 100 50 = 20 \<and> midpointDistance roomB 100 50 = 40"
    by (simp add: midpointDistance_def euclideanDistance_def roomA_def roomB_def exampleLayer_def)
  have f1: "findSegmentAtPositionCached edgeCache 100 50 = Some roomA"
    by (simp add: edge_cache_defs)
  have c2: "containingSegments edgeCache 100 80 = [roomA, roomB]" by (simp add: containing_defs)
  have far: "(10::real) < sqrt 1300" by (rule real_less_rsqrt) simp
  have d2: "midpointDistance roomB 100 80 = 10
            \<and> midpointDistance roomB 100 80 < midpointDistance roomA 100 80"
    using far
    by (simp add: midpointDistance_def euclideanDistance_def roomA_def roomB_def exampleLayer_def)
  have f2: "findSegmentAtPositionCached edgeCache 100 80 = Some roomB"
    using far by (simp add: edge_cache_defs)
  have c3: "containingSegments exampleCache 100 50
       = [exampleLayer ''segment'' ''1'' 50 110 0 100, exampleLayer ''segment'' ''2'' 90 150 0 100]"
    by (simp add: containing_defs)
  have d3: "midpointDistance (exampleLayer ''segment'' ''1'' 50 110 0 100) 100 50
       = midpointDistance (exampleLayer ''segment'' ''2'' 90 150 0 100) 100 50"
    by (simp add: midpointDistance_def euclideanDistance_def exampleLayer_def)
  have f3: "findSegmentAtPositionCached exampleCache 100 50
       = Some (exampleLayer ''segment'' ''1'' 50 110 0 100)"
    by (simp add: example_cache_defs)
  show ?thesis
    using e1 n2 e3 n4 e5 n6 f7 n8 fl e7 c1 d1 f1 c2 d2 f2 c3 d3 f3 by blast
qed

section \<open>Clean-mode catalog: properties\<close>

lemma deduplicateModes_avoids_seen:
  "set (map label (deduplicateModes seen ms)) \<inter> seen = {}"
  by (induction seen ms rule: deduplicateModes.induct) auto

lemma deduplicateModes_distinct:
  "distinct (map label (deduplicateModes seen ms))"
proof (induction seen ms rule: deduplicateModes.induct)
  case (1 seenLabels)
  then show ?case by simp
next
  case (2 seenLabels m ms)
  then show ?case
    using deduplicateModes_avoids_seen [of "insert (label m) seenLabels" ms] by auto
qed

lemma deduplicateModes_subseq: "subseq (deduplicateModes seen ms) ms"
  by (induction seen ms rule: deduplicateModes.induct) auto

lemma deduplicateModes_find:
  "find (\<lambda>m. label m = l) (deduplicateModes seen ms) =
     (if l \<in> seen then None else find (\<lambda>m. label m = l) ms)"
proof (induction seen ms rule: deduplicateModes.induct)
  case (1 seenLabels)
  then show ?case by simp
next
  case (2 seenLabels m ms)
  then show ?case by auto
qed

lemma deduplicateModes_Nil_iff: "deduplicateModes {} ms = [] \<longleftrightarrow> ms = []"
  by (cases ms) auto

text \<open>
  Claim C8. The final clean-mode catalog is never empty and its labels are pairwise
  distinct. Without generated entries it is exactly the fallback entry (label
  \<^verbatim>\<open>Vacuum\<close>, code 66). Otherwise it is a subsequence of the generated entries in which
  every label is represented by its first occurrence.
\<close>

theorem clean_mode_catalog_labels_unique:
  "distinct (map label (finalCleanModes tagVacuum tagAuto ms))
   \<and> finalCleanModes tagVacuum tagAuto ms \<noteq> []
   \<and> (ms = [] \<longrightarrow> finalCleanModes tagVacuum tagAuto ms = [fallbackCleanMode tagVacuum tagAuto])
   \<and> (ms \<noteq> [] \<longrightarrow>
        subseq (finalCleanModes tagVacuum tagAuto ms) ms
        \<and> (\<forall>l. find (\<lambda>m. label m = l) (finalCleanModes tagVacuum tagAuto ms)
                 = find (\<lambda>m. label m = l) ms))"
proof -
  have d: "distinct (map label (finalCleanModes tagVacuum tagAuto ms))"
    by (simp add: finalCleanModes_def Let_def deduplicateModes_distinct)
  have n: "finalCleanModes tagVacuum tagAuto ms \<noteq> []"
    by (simp add: finalCleanModes_def Let_def)
  have e: "ms = [] \<longrightarrow> finalCleanModes tagVacuum tagAuto ms = [fallbackCleanMode tagVacuum tagAuto]"
    by (simp add: finalCleanModes_def fallbackCleanMode_def)
  have f: "ms \<noteq> [] \<longrightarrow> finalCleanModes tagVacuum tagAuto ms = deduplicateModes {} ms"
    by (simp add: finalCleanModes_def Let_def deduplicateModes_Nil_iff)
  show ?thesis using d n e f
    by (simp add: deduplicateModes_subseq deduplicateModes_find)
qed

theorem clean_mode_catalog_labels_unique_witness:
  "exampleModes \<noteq> []
   \<and> finalCleanModes 1 0 exampleModes
       = [\<lparr>label = ''Vacuum'', mode = 66, modeTags = [1]\<rparr>,
          \<lparr>label = ''Mop'', mode = 31, modeTags = [2]\<rparr>]
   \<and> distinct (map label (finalCleanModes 1 0 exampleModes))
   \<and> find (\<lambda>m. label m = ''Vacuum'') (finalCleanModes 1 0 exampleModes)
       = Some \<lparr>label = ''Vacuum'', mode = 66, modeTags = [1]\<rparr>
   \<and> finalCleanModes 1 0 [] = [fallbackCleanMode 1 0]"
  using clean_mode_catalog_labels_unique [of 1 0 exampleModes]
    clean_mode_catalog_labels_unique [of 1 0 "[]"]
  by (simp add: exampleModes_def finalCleanModes_def)

section \<open>Change-gated synchronizer: properties\<close>

lemma strictlyDiffers_JNum:
  "strictlyDiffers (map_option JNum st) (JNum n) = (st \<noteq> Some n)"
  by (cases st) (simp_all add: strictlyDiffers_def)

lemma updateBatteryState_state:
  "fst (updateBatteryState attrs v) =
     v\<lparr>lastBatteryLevel := storedAfter (computedBatteryLevel attrs) (lastBatteryLevel v),
       lastBatteryChargeState := storedAfter (computedBatteryChargeState attrs) (lastBatteryChargeState v)\<rparr>"
  by (cases "findBattery attrs")
     (auto simp add: updateBatteryState_def storedAfter_def computedBatteryLevel_def
        computedBatteryChargeState_def strictlyDiffers_def Let_def split_def)

lemma updateBatteryState_writes:
  "trackedWrites (snd (updateBatteryState attrs v)) =
     (if initialStatePending v
      then forcedWrite ''PowerSource'' ''batPercentRemaining'' (computedBatteryLevel attrs)
           @ forcedWrite ''PowerSource'' ''batChargeState''
               (map_option JNum (computedBatteryChargeState attrs))
      else gatedWrite ''PowerSource'' ''batPercentRemaining''
             (computedBatteryLevel attrs) (lastBatteryLevel v)
           @ gatedWrite ''PowerSource'' ''batChargeState''
               (map_option JNum (computedBatteryChargeState attrs))
               (map_option JNum (lastBatteryChargeState v)))"
  by (cases "findBattery attrs")
     (auto simp add: updateBatteryState_def trackedWrites_def forcedWrite_def gatedWrite_def
        computedBatteryLevel_def computedBatteryChargeState_def strictlyDiffers_JNum
        Let_def split_def)


lemma updateStatusState_raised:
  "raised (updateStatusState attrs v) = (\<not> attributePassCompletes attrs)"
  by (cases "findStatus attrs"; cases "the (findStatus attrs)")
     (auto simp add: updateStatusState_def attributePassCompletes_def Let_def split_def)

lemma updateStatusState_state:
  "fst (reached (updateStatusState attrs v)) =
     v\<lparr>lastOperationalState := storedAfter (computedOperationalState attrs) (lastOperationalState v),
       lastRunMode := storedAfter (computedRunMode attrs) (lastRunMode v)\<rparr>"
  by (cases "findStatus attrs"; cases "the (findStatus attrs)")
     (auto simp add: updateStatusState_def storedAfter_def computedOperationalState_def
        computedRunMode_def strictlyDiffers_def Let_def split_def)

lemma updateStatusState_writes:
  "trackedWrites (snd (reached (updateStatusState attrs v))) =
     (if initialStatePending v
      then forcedWrite ''RvcOperationalState'' ''operationalState'' (computedOperationalState attrs)
           @ forcedWrite ''RvcRunMode'' ''currentMode'' (map_option JNum (computedRunMode attrs))
      else gatedWrite ''RvcOperationalState'' ''operationalState''
             (computedOperationalState attrs) (lastOperationalState v)
           @ gatedWrite ''RvcRunMode'' ''currentMode''
               (map_option JNum (computedRunMode attrs)) (map_option JNum (lastRunMode v)))"
  by (cases "findStatus attrs"; cases "the (findStatus attrs)")
     (auto simp add: updateStatusState_def trackedWrites_def forcedWrite_def gatedWrite_def
        computedOperationalState_def computedRunMode_def strictlyDiffers_JNum Let_def split_def)


lemma clearInitialStatePending_state:
  "fst (clearInitialStatePending v) = v\<lparr>initialStatePending := False\<rparr>"
  by (simp add: clearInitialStatePending_def)

lemma clearInitialStatePending_writes:
  "filter isWrite (snd (clearInitialStatePending v)) = []"
  by (simp add: clearInitialStatePending_def)


lemma benign_no_tracked: "list_all benign es \<Longrightarrow> trackedWrites es = []"
proof (induction es)
  case Nil
  then show ?case by (simp add: trackedWrites_def)
next
  case (Cons e es)
  then show ?case by (cases e) (auto simp add: trackedWrites_def)
qed




lemma trackedFieldsKept_refl: "trackedFieldsKept a a"
  by (simp add: trackedFieldsKept_def)

lemma consumableFieldsKept_refl: "consumableFieldsKept a a"
  by (simp add: consumableFieldsKept_def)

lemma trackedWrites_append: "trackedWrites (a @ b) = trackedWrites a @ trackedWrites b"
  by (simp add: trackedWrites_def)

lemma quietFrom_refl: "quietFrom v (v, [])"
  by (simp add: quietFrom_def trackedFieldsKept_refl consumableFieldsKept_refl)

lemma quietFrom_benign: "list_all benign es \<Longrightarrow> quietFrom v (v, es)"
  by (simp add: quietFrom_def trackedFieldsKept_refl consumableFieldsKept_refl)

lemma quietFrom_debug: "quietFrom v (v, [Log Debug m])"
  by (simp add: quietFrom_benign)

lemma quietFrom_warn: "quietFrom v (v, [Log Warn m])"
  by (simp add: quietFrom_benign)

lemma quietFrom_trans:
  "quietFrom v (v1, es1) \<Longrightarrow> quietFrom v1 (v2, es2) \<Longrightarrow> quietFrom v (v2, es1 @ es2)"
  by (simp add: quietFrom_def trackedFieldsKept_def consumableFieldsKept_def)

lemma endsWith_andThen:
  assumes "endsWith (quietFrom v) r" and "\<And>v1. endsWith (quietFrom v1) (f v1)"
  shows "endsWith (quietFrom v) (andThen r f)"
proof (cases r)
  case (Threw x)
  then show ?thesis using assms(1) by (simp add: andThen_def endsWith_def)
next
  case (Returned x)
  obtain v1 es1 where x: "x = (v1, es1)" by (cases x)
  have q1: "quietFrom v (v1, es1)" using assms(1) Returned x by (simp add: endsWith_def)
  show ?thesis
  proof (cases "f v1")
    case (Returned y)
    obtain v2 es2 where y: "y = (v2, es2)" by (cases y)
    have "quietFrom v1 (v2, es2)" using assms(2) [of v1] Returned y by (simp add: endsWith_def)
    then have "quietFrom v (v2, es1 @ es2)" using q1 quietFrom_trans by blast
    then show ?thesis using \<open>r = Returned x\<close> x Returned y by (simp add: andThen_def endsWith_def)
  next
    case (Threw y)
    obtain v2 es2 where y: "y = (v2, es2)" by (cases y)
    have "quietFrom v1 (v2, es2)" using assms(2) [of v1] Threw y by (simp add: endsWith_def)
    then have "quietFrom v (v2, es1 @ es2)" using q1 quietFrom_trans by blast
    then show ?thesis using \<open>r = Returned x\<close> x Threw y by (simp add: andThen_def endsWith_def)
  qed
qed

lemma clientGet_benign:
  "what = ''map data'' \<or> what = ''consumables'' \<Longrightarrow> list_all benign (snd (clientGet what r))"
  by (cases r) (auto simp add: clientErrorLines_def)

lemma getMapPositionData_benign: "list_all benign (snd (getMapPositionData r))"
  by (cases r rule: getMapPositionData.cases) (simp_all add: clientErrorLines_def)

lemma refresh_quiet: "endsWith (quietFrom v) (refreshMapCacheForVacuum cfg renv v)"
proof -
  obtain result ls where c: "clientGet ''map data'' (mapData renv) = (result, ls)"
    by (cases "clientGet ''map data'' (mapData renv)")
  have b: "list_all benign ls" using clientGet_benign [of "''map data''" "mapData renv"] c by simp
  show ?thesis using b
    by (simp add: refreshMapCacheForVacuum_def Let_def c endsWith_def quietFrom_def
          trackedFieldsKept_def consumableFieldsKept_def split: option.split)
qed

lemma ensureMapCache_quiet: "endsWith (quietFrom v) (ensureMapCache cfg env v)"
  using refresh_quiet [of v cfg "refresh1 env"]
  by (simp add: ensureMapCache_def endsWith_def quietFrom_refl)

lemma refreshOnVersionChange_quiet:
  "endsWith (quietFrom v) (refreshOnVersionChange cfg env pd cache v)"
proof (cases "pos_metaData_version pd \<noteq> None \<and> pos_metaData_version pd \<noteq> Some (version cache)")
  case True
  have "endsWith (quietFrom v) (andThen (Returned (v, [Log Warn ''Map version changed'']))
             (refreshMapCacheForVacuum cfg (refresh2 env)))"
  proof (rule endsWith_andThen)
    show "endsWith (quietFrom v) (Returned (v, [Log Warn ''Map version changed'']))"
      by (simp add: endsWith_def quietFrom_warn)
  next
    fix v1
    show "endsWith (quietFrom v1) (refreshMapCacheForVacuum cfg (refresh2 env) v1)"
      by (rule refresh_quiet)
  qed
  then show ?thesis using True by (simp add: refreshOnVersionChange_def)
next
  case False
  then show ?thesis by (auto simp add: refreshOnVersionChange_def endsWith_def quietFrom_refl)
qed

lemma multipleSegmentsLine_benign: "list_all benign (multipleSegmentsLine cache x y)"
  by (simp add: multipleSegmentsLine_def)

lemma locateRobot_quiet: "quietFrom v (locateRobot ents v)"
  using multipleSegmentsLine_benign
  by (auto simp add: locateRobot_def Let_def quietFrom_def trackedFieldsKept_def
        consumableFieldsKept_def split: option.splits if_splits prod.splits)

lemma positionTrackingBody_quiet: "endsWith (quietFrom v) (positionTrackingBody cfg env v)"
  unfolding positionTrackingBody_def
proof (rule endsWith_andThen [OF ensureMapCache_quiet])
  fix v1
  obtain result ls where g: "getMapPositionData (positionData env) = (result, ls)"
    by (cases "getMapPositionData (positionData env)")
  have b: "list_all benign ls" using getMapPositionData_benign [of "positionData env"] g by simp
  show "endsWith (quietFrom v1)
          (case mapLayersCache v1 of
             None \<Rightarrow> Returned (v1, [Log Debug ''Map cache not available''])
           | Some cache \<Rightarrow>
               (case getMapPositionData (positionData env) of
                  (None, clientLines) \<Rightarrow> Returned (v1, clientLines)
                | (Some pd, clientLines) \<Rightarrow>
                    andThen (Returned (v1, clientLines))
                      (\<lambda>vacuum1.
                         andThen (refreshOnVersionChange cfg env pd cache vacuum1)
                           (\<lambda>vacuum2.
                              case entities pd of
                                None \<Rightarrow> Threw (vacuum2, [])
                              | Some ents \<Rightarrow> Returned (locateRobot ents vacuum2)))))"
  proof (cases "mapLayersCache v1")
    case None
    then show ?thesis by (simp add: endsWith_def quietFrom_debug)
  next
    case (Some cache)
    note cache = Some
    show ?thesis
    proof (cases result)
      case None
      then show ?thesis using cache g b by (simp add: endsWith_def quietFrom_benign)
    next
      case (Some pd)
      have "endsWith (quietFrom v1)
              (andThen (Returned (v1, ls))
                 (\<lambda>vacuum1.
                    andThen (refreshOnVersionChange cfg env pd cache vacuum1)
                      (\<lambda>vacuum2. case entities pd of
                           None \<Rightarrow> Threw (vacuum2, [])
                         | Some ents \<Rightarrow> Returned (locateRobot ents vacuum2))))"
      proof (rule endsWith_andThen)
        show "endsWith (quietFrom v1) (Returned (v1, ls))"
          using b by (simp add: endsWith_def quietFrom_benign)
      next
        fix va
        show "endsWith (quietFrom va)
                (andThen (refreshOnVersionChange cfg env pd cache va)
                   (\<lambda>vacuum2. case entities pd of
                        None \<Rightarrow> Threw (vacuum2, [])
                      | Some ents \<Rightarrow> Returned (locateRobot ents vacuum2)))"
        proof (rule endsWith_andThen [OF refreshOnVersionChange_quiet])
          fix v2
          show "endsWith (quietFrom v2)
                  (case entities pd of None \<Rightarrow> Threw (v2, [])
                   | Some ents \<Rightarrow> Returned (locateRobot ents v2))"
            by (cases "entities pd") (simp_all add: endsWith_def quietFrom_refl locateRobot_quiet)
        qed
      qed
      then show ?thesis using cache Some g by simp
    qed
  qed
qed

lemma positionTracking_quiet: "quietFrom v (positionTracking cfg env v)"
proof (cases "positionTracking_enabled cfg \<noteq> Some False \<and> length (areaToSegmentMap v) > 0")
  case False
  then show ?thesis by (auto simp add: positionTracking_def quietFrom_refl)
next
  case True
  show ?thesis
  proof (cases "positionTrackingBody cfg env v")
    case (Returned r)
    then show ?thesis using True positionTrackingBody_quiet [of v cfg env]
      by (simp add: positionTracking_def endsWith_def)
  next
    case (Threw r)
    obtain vt et where r: "r = (vt, et)" by (cases r)
    have "quietFrom v (vt, et)" using positionTrackingBody_quiet [of v cfg env] Threw r
      by (simp add: endsWith_def)
    then have "quietFrom v (vt, et @ [Log Debug ''Position tracking error''])"
      using quietFrom_trans [OF _ quietFrom_debug] by blast
    then show ?thesis using True Threw r by (simp add: positionTracking_def)
  qed
qed

lemma checkConsumable_benign:
  "endsWith (\<lambda>r. list_all benign (snd r)) (checkConsumable mx thr c m)"
  by (simp add: checkConsumable_def Let_def endsWith_def split: option.split)

lemma consumablesLoop_benign:
  "endsWith (\<lambda>r. list_all benign (snd r)) (consumablesLoop mx thr cs m)"
proof (induction cs arbitrary: m)
  case Nil
  then show ?case by (simp add: endsWith_def)
next
  case (Cons c cs)
  show ?case
  proof (cases "checkConsumable mx thr c m")
    case (Threw r)
    then show ?thesis using checkConsumable_benign [of mx thr c m] by (simp add: endsWith_def)
  next
    case (Returned r)
    obtain m1 es1 where r: "r = (m1, es1)" by (cases r)
    have e1: "list_all benign es1"
      using checkConsumable_benign [of mx thr c m] Returned r by (simp add: endsWith_def)
    show ?thesis
      using Cons.IH [of m1] Returned r e1
      by (cases "consumablesLoop mx thr cs m1") (auto simp add: endsWith_def)
  qed
qed

lemma updateConsumableStatesForVacuum_kept:
  "trackedFieldsKept v (fst (updateConsumableStatesForVacuum cfg now resp v))
   \<and> list_all benign (snd (updateConsumableStatesForVacuum cfg now resp v))"
proof (cases "now - lastConsumablesCheck v < CONSUMABLES_CHECK_INTERVAL")
  case True
  then show ?thesis
    by (simp add: updateConsumableStatesForVacuum_def trackedFieldsKept_refl)
next
  case False
  note due = False
  obtain result ls where g: "clientGet ''consumables'' resp = (result, ls)"
    by (cases "clientGet ''consumables'' resp")
  have bl: "list_all benign ls" using clientGet_benign [of "''consumables''" resp] g by simp
  show ?thesis
  proof (cases result)
    case None
    then show ?thesis using due g bl
      by (simp add: updateConsumableStatesForVacuum_def Let_def trackedFieldsKept_def)
  next
    case (Some cs)
    let ?loop = "consumablesLoop (configuredMaxLifetimes cfg) (update_warningThreshold cfg) cs
                   (consumableMap v)"
    have b: "endsWith (\<lambda>r. list_all benign (snd r)) ?loop" by (rule consumablesLoop_benign)
    show ?thesis
    proof (cases ?loop)
      case (Returned r)
      then show ?thesis using due Some b g bl
        by (cases r) (simp add: updateConsumableStatesForVacuum_def Let_def trackedFieldsKept_def
              endsWith_def)
    next
      case (Threw r)
      then show ?thesis using due Some b g bl
        by (cases r) (simp add: updateConsumableStatesForVacuum_def Let_def trackedFieldsKept_def
              endsWith_def)
    qed
  qed
qed

lemma consumablesStep_kept:
  "trackedFieldsKept v (fst (consumablesStep cfg env v))
   \<and> list_all benign (snd (consumablesStep cfg env v))"
  using updateConsumableStatesForVacuum_kept [of v cfg "now_consumables env" "consumables env"]
  by (simp add: consumablesStep_def trackedFieldsKept_refl)

lemma updateVacuumState_Attributes:
  assumes "device v" and "stateAttributes env = Attributes attrs"
    and "attributePassCompletes attrs"
  shows "updateVacuumState cfg env v =
     ((fst (consumablesStep cfg env
              (fst (positionTracking cfg env (afterAttributePass attrs v)))))
        \<lparr>lastSeen := now_lastSeen env, online := True\<rparr>,
      snd (updateBatteryState attrs v)
      @ snd (reached (updateStatusState attrs (fst (updateBatteryState attrs v))))
      @ snd (clearInitialStatePending
               (fst (reached (updateStatusState attrs (fst (updateBatteryState attrs v))))))
      @ snd (positionTracking cfg env (afterAttributePass attrs v))
      @ snd (consumablesStep cfg env
               (fst (positionTracking cfg env (afterAttributePass attrs v)))))"
proof -
  let ?b = "updateBatteryState attrs v"
  have "\<not> raised (updateStatusState attrs (fst ?b))"
    using assms(3) by (simp add: updateStatusState_raised)
  then obtain r where r: "updateStatusState attrs (fst ?b) = Returned r"
    by (cases "updateStatusState attrs (fst ?b)") auto
  show ?thesis using assms(1,2)
    by (simp add: updateVacuumState_def afterAttributePass_def r split_def Let_def)
qed

lemma updateVacuumState_Attributes_raised:
  assumes "device v" and "stateAttributes env = Attributes attrs"
    and "\<not> attributePassCompletes attrs"
  shows "updateVacuumState cfg env v =
     ((fst (reached (updateStatusState attrs (fst (updateBatteryState attrs v)))))
        \<lparr>online := False\<rparr>,
      snd (updateBatteryState attrs v)
      @ snd (reached (updateStatusState attrs (fst (updateBatteryState attrs v))))
      @ [Log Err ''Error updating state''])"
proof -
  let ?b = "updateBatteryState attrs v"
  have "raised (updateStatusState attrs (fst ?b))"
    using assms(3) by (simp add: updateStatusState_raised)
  then obtain r where r: "updateStatusState attrs (fst ?b) = Threw r"
    by (cases "updateStatusState attrs (fst ?b)") auto
  show ?thesis using assms(1,2)
    by (simp add: updateVacuumState_def r split_def Let_def)
qed

lemma afterAttributePass_state:
  "afterAttributePass attrs v =
     v\<lparr>lastBatteryLevel := storedAfter (computedBatteryLevel attrs) (lastBatteryLevel v),
       lastBatteryChargeState :=
         storedAfter (computedBatteryChargeState attrs) (lastBatteryChargeState v),
       lastOperationalState :=
         storedAfter (computedOperationalState attrs) (lastOperationalState v),
       lastRunMode := storedAfter (computedRunMode attrs) (lastRunMode v),
       initialStatePending := False\<rparr>"
  by (simp add: afterAttributePass_def clearInitialStatePending_state updateStatusState_state
        updateBatteryState_state)

lemma attributePass_writes:
  "trackedWrites (snd (updateBatteryState attrs v)
      @ snd (reached (updateStatusState attrs (fst (updateBatteryState attrs v)))))
   = (if initialStatePending v then trackedWritesForced attrs else trackedWritesGated attrs v)"
  by (simp add: trackedWrites_append updateBatteryState_writes updateStatusState_writes
        updateBatteryState_state trackedWritesForced_def trackedWritesGated_def)


lemma cycle_writes:
  assumes "device v" and "stateAttributes env = Attributes attrs"
  shows "trackedWrites (snd (updateVacuumState cfg env v))
           = (if initialStatePending v then trackedWritesForced attrs
              else trackedWritesGated attrs v)"
proof (cases "attributePassCompletes attrs")
  case True
  let ?p = "positionTracking cfg env (afterAttributePass attrs v)"
  have p: "trackedWrites (snd ?p) = []"
    using positionTracking_quiet [of "afterAttributePass attrs v" cfg env]
    by (simp add: quietFrom_def benign_no_tracked)
  have c: "trackedWrites (snd (consumablesStep cfg env (fst ?p))) = []"
    using consumablesStep_kept [of "fst ?p" cfg env] by (simp add: benign_no_tracked)
  have k: "trackedWrites (snd (clearInitialStatePending x)) = []" for x
    by (simp add: clearInitialStatePending_def trackedWrites_def)
  have "trackedWrites (snd (updateVacuumState cfg env v))
          = trackedWrites (snd (updateBatteryState attrs v)
      @ snd (reached (updateStatusState attrs (fst (updateBatteryState attrs v)))))"
    using p c k by (simp add: updateVacuumState_Attributes [OF assms True] trackedWrites_append)
  then show ?thesis by (simp only: attributePass_writes)
next
  case False
  have e: "trackedWrites [Log Err ''Error updating state''] = []"
    by (simp add: trackedWrites_def)
  have "trackedWrites (snd (updateVacuumState cfg env v))
          = trackedWrites (snd (updateBatteryState attrs v)
      @ snd (reached (updateStatusState attrs (fst (updateBatteryState attrs v)))))"
    using e by (simp add: updateVacuumState_Attributes_raised [OF assms False] trackedWrites_append)
  then show ?thesis by (simp only: attributePass_writes)
qed

lemma cycle_stored:
  assumes "device v" and "stateAttributes env = Attributes attrs"
  shows "device (fst (updateVacuumState cfg env v))"
    and "lastBatteryLevel (fst (updateVacuumState cfg env v))
           = storedAfter (computedBatteryLevel attrs) (lastBatteryLevel v)"
    and "lastBatteryChargeState (fst (updateVacuumState cfg env v))
           = storedAfter (computedBatteryChargeState attrs) (lastBatteryChargeState v)"
    and "lastOperationalState (fst (updateVacuumState cfg env v))
           = storedAfter (computedOperationalState attrs) (lastOperationalState v)"
    and "lastRunMode (fst (updateVacuumState cfg env v))
           = storedAfter (computedRunMode attrs) (lastRunMode v)"
    and "initialStatePending (fst (updateVacuumState cfg env v))
           = (initialStatePending v \<and> \<not> attributePassCompletes attrs)"
    and "online (fst (updateVacuumState cfg env v)) = attributePassCompletes attrs"
proof -
  let ?a = "afterAttributePass attrs v"
  let ?p = "fst (positionTracking cfg env ?a)"
  let ?c = "fst (consumablesStep cfg env ?p)"
  let ?s = "fst (reached (updateStatusState attrs (fst (updateBatteryState attrs v))))"
  have k: "trackedFieldsKept ?a ?c"
    using positionTracking_quiet [of ?a cfg env] consumablesStep_kept [of ?p cfg env]
    by (simp add: quietFrom_def trackedFieldsKept_def)
  have r: "fst (updateVacuumState cfg env v)
             = (if attributePassCompletes attrs
                then ?c\<lparr>lastSeen := now_lastSeen env, online := True\<rparr>
                else ?s\<lparr>online := False\<rparr>)"
    using updateVacuumState_Attributes [OF assms, of cfg]
      updateVacuumState_Attributes_raised [OF assms, of cfg] by simp
  have s: "?s = v\<lparr>lastBatteryLevel := storedAfter (computedBatteryLevel attrs) (lastBatteryLevel v),
       lastBatteryChargeState :=
         storedAfter (computedBatteryChargeState attrs) (lastBatteryChargeState v),
       lastOperationalState :=
         storedAfter (computedOperationalState attrs) (lastOperationalState v),
       lastRunMode := storedAfter (computedRunMode attrs) (lastRunMode v)\<rparr>"
    by (simp add: updateStatusState_state updateBatteryState_state)
  show "device (fst (updateVacuumState cfg env v))"
    using k assms(1) by (simp add: r s trackedFieldsKept_def afterAttributePass_state)
  show "lastBatteryLevel (fst (updateVacuumState cfg env v))
           = storedAfter (computedBatteryLevel attrs) (lastBatteryLevel v)"
    using k by (simp add: r s trackedFieldsKept_def afterAttributePass_state)
  show "lastBatteryChargeState (fst (updateVacuumState cfg env v))
           = storedAfter (computedBatteryChargeState attrs) (lastBatteryChargeState v)"
    using k by (simp add: r s trackedFieldsKept_def afterAttributePass_state)
  show "lastOperationalState (fst (updateVacuumState cfg env v))
           = storedAfter (computedOperationalState attrs) (lastOperationalState v)"
    using k by (simp add: r s trackedFieldsKept_def afterAttributePass_state)
  show "lastRunMode (fst (updateVacuumState cfg env v))
           = storedAfter (computedRunMode attrs) (lastRunMode v)"
    using k by (simp add: r s trackedFieldsKept_def afterAttributePass_state)
  show "initialStatePending (fst (updateVacuumState cfg env v))
           = (initialStatePending v \<and> \<not> attributePassCompletes attrs)"
    using k by (simp add: r s trackedFieldsKept_def afterAttributePass_state)
  show "online (fst (updateVacuumState cfg env v)) = attributePassCompletes attrs"
    by (simp add: r)
qed

lemma cycle_completed:
  assumes "device v" and "stateAttributes env = Attributes attrs"
    and "attributePassCompletes attrs"
  shows "\<not> initialStatePending (fst (updateVacuumState cfg env v))"
    and "online (fst (updateVacuumState cfg env v))"
    and "lastSeen (fst (updateVacuumState cfg env v)) = now_lastSeen env"
  using assms cycle_stored(6,7) [OF assms(1,2), of cfg]
  by (simp_all add: updateVacuumState_Attributes [OF assms])

lemma pending_never_set:
  "\<not> initialStatePending v \<Longrightarrow> \<not> initialStatePending (fst (updateVacuumState cfg env v))"
proof (cases "device v")
  case False
  then show "\<not> initialStatePending v \<Longrightarrow> ?thesis" by (simp add: updateVacuumState_def)
next
  case True
  assume n: "\<not> initialStatePending v"
  show ?thesis
  proof (cases "stateAttributes env")
    case FetchFailed
    then show ?thesis using True n by (simp add: updateVacuumState_def)
  next
    case NoData
    then show ?thesis using True n by (simp add: updateVacuumState_def)
  next
    case NotAnArray
    then show ?thesis using True n by (simp add: updateVacuumState_def)
  next
    case (Attributes attrs)
    then show ?thesis using cycle_stored(6) [OF True Attributes] n by simp
  qed
qed

lemma pollCycles_pending_never_set:
  "\<not> initialStatePending v \<Longrightarrow> \<not> initialStatePending (pollCycles cfg envs v)"
proof (induction envs arbitrary: v)
  case Nil
  then show ?case by simp
next
  case (Cons env envs)
  then show ?case using pending_never_set [of v cfg env] by simp
qed








lemma toLowerCase_docked: "toLowerCase ''docked'' = ''docked''"
  by code_simp

lemma toLowerCase_idle: "toLowerCase ''idle'' = ''idle''"
  by code_simp

lemma computed_snapshotDocked:
  "computedBatteryLevel (snapshotDocked 100) = Some (JNum 200)"
  "computedBatteryLevel (snapshotDocked 90) = Some (JNum 180)"
  "computedBatteryChargeState (snapshotDocked l) = Some 2"
  "computedOperationalState (snapshotDocked l) = Some (JNum Docked)"
  "computedRunMode (snapshotDocked l) = Some RvcRunMode_Idle"
  "attributePassCompletes (snapshotDocked l)"
  by (simp_all add: snapshotDocked_def computedBatteryLevel_def computedBatteryChargeState_def
        computedOperationalState_def computedRunMode_def batPercentRemaining_def js_round_def
        batChargeState_def mapValetudoStatusToOperationalState_def mapValetudoStatusToRunMode_def
        toLowerCase_docked toLowerCase_idle statusMap_def statusMap_own_def
        attributePassCompletes_def Let_def)


lemma computed_status_only:
  "computedBatteryLevel snapshotStatusOnly = None"
  "computedBatteryChargeState snapshotStatusOnly = None"
  "computedOperationalState snapshotStatusOnly = Some (JNum Docked)"
  "computedRunMode snapshotStatusOnly = Some RvcRunMode_Idle"
  "attributePassCompletes snapshotStatusOnly"
  by (simp_all add: snapshotStatusOnly_def computedBatteryLevel_def computedBatteryChargeState_def
        computedOperationalState_def computedRunMode_def
        mapValetudoStatusToOperationalState_def mapValetudoStatusToRunMode_def
        toLowerCase_docked statusMap_def statusMap_own_def attributePassCompletes_def Let_def)


lemma device_exampleVacuum: "device exampleVacuum \<and> initialStatePending exampleVacuum"
  by (simp add: exampleVacuum_def newVacuum_def)

lemma stateAttributes_quietEnv: "stateAttributes (quietEnv r) = r"
  by (simp add: quietEnv_def)


lemma primedVacuum_state:
  "device primedVacuum"
  "initialStatePending primedVacuum"
  "lastBatteryLevel primedVacuum = Some (JNum 200)"
  "lastBatteryChargeState primedVacuum = Some 2"
  "lastOperationalState primedVacuum = Some (JNum Docked)"
  "lastRunMode primedVacuum = Some RvcRunMode_Idle"
  by (simp_all add: primedVacuum_def setInitialVacuumState_def snapshotDocked_def newVacuum_def
        batPercentRemaining_def js_round_def batChargeState_def
        mapValetudoStatusToOperationalState_def mapValetudoStatusToRunMode_def
        toLowerCase_docked toLowerCase_idle statusMap_def statusMap_own_def Let_def)




text \<open>
  Claim C4, as the code has it. On a cycle that receives attributes while the pending flag
  is set, every tracked attribute whose record is in the snapshot is written, whatever the
  stored values are: battery level and charge state when there is a battery record,
  operational state and run mode when there is a status record, all four in that order
  when both are there. An attribute whose record is missing is not written. When the
  attribute pass completes, the flag is cleared at its end, and no later cycle sets it
  again.
\<close>

theorem initial_cycle_publishes_present_attributes:
  assumes "device v" and "initialStatePending v" and "stateAttributes env = Attributes attrs"
    and "attributePassCompletes attrs"
  shows "trackedWrites (snd (updateVacuumState cfg env v)) = trackedWritesForced attrs
   \<and> (\<forall>level flag status.
         findBattery attrs = Some (level, flag) \<and> findStatus attrs = Some (Some status) \<longrightarrow>
         trackedWrites (snd (updateVacuumState cfg env v))
           = [SetAttribute ''PowerSource'' ''batPercentRemaining'' (batPercentRemaining level),
              SetAttribute ''PowerSource'' ''batChargeState'' (JNum (batChargeState flag)),
              SetAttribute ''RvcOperationalState'' ''operationalState''
                (mapValetudoStatusToOperationalState status (findDockStatus attrs)),
              SetAttribute ''RvcRunMode'' ''currentMode'' (JNum (mapValetudoStatusToRunMode status))])
   \<and> (findBattery attrs = None \<longrightarrow>
         (\<forall>x. SetAttribute ''PowerSource'' ''batPercentRemaining'' x
                \<notin> set (trackedWrites (snd (updateVacuumState cfg env v))))
         \<and> (\<forall>x. SetAttribute ''PowerSource'' ''batChargeState'' x
                \<notin> set (trackedWrites (snd (updateVacuumState cfg env v)))))
   \<and> (findStatus attrs = None \<longrightarrow>
         (\<forall>x. SetAttribute ''RvcOperationalState'' ''operationalState'' x
                \<notin> set (trackedWrites (snd (updateVacuumState cfg env v))))
         \<and> (\<forall>x. SetAttribute ''RvcRunMode'' ''currentMode'' x
                \<notin> set (trackedWrites (snd (updateVacuumState cfg env v)))))
   \<and> \<not> initialStatePending (fst (updateVacuumState cfg env v))
   \<and> (\<forall>cfg' envs. \<not> initialStatePending (pollCycles cfg' envs (fst (updateVacuumState cfg env v))))"
proof -
  have w: "trackedWrites (snd (updateVacuumState cfg env v)) = trackedWritesForced attrs"
    using assms(2) by (simp add: cycle_writes [OF assms(1) assms(3)])
  have full: "\<forall>level flag status.
         findBattery attrs = Some (level, flag) \<and> findStatus attrs = Some (Some status) \<longrightarrow>
         trackedWritesForced attrs
           = [SetAttribute ''PowerSource'' ''batPercentRemaining'' (batPercentRemaining level),
              SetAttribute ''PowerSource'' ''batChargeState'' (JNum (batChargeState flag)),
              SetAttribute ''RvcOperationalState'' ''operationalState''
                (mapValetudoStatusToOperationalState status (findDockStatus attrs)),
              SetAttribute ''RvcRunMode'' ''currentMode'' (JNum (mapValetudoStatusToRunMode status))]"
    by (simp add: trackedWritesForced_def forcedWrite_def computedBatteryLevel_def
          computedBatteryChargeState_def computedOperationalState_def computedRunMode_def)
  have nb: "findBattery attrs = None \<longrightarrow>
         (\<forall>x. SetAttribute ''PowerSource'' ''batPercentRemaining'' x \<notin> set (trackedWritesForced attrs))
         \<and> (\<forall>x. SetAttribute ''PowerSource'' ''batChargeState'' x \<notin> set (trackedWritesForced attrs))"
    by (cases "computedOperationalState attrs"; cases "computedRunMode attrs")
       (simp_all add: trackedWritesForced_def forcedWrite_def computedBatteryLevel_def
          computedBatteryChargeState_def)
  have ns: "findStatus attrs = None \<longrightarrow>
         (\<forall>x. SetAttribute ''RvcOperationalState'' ''operationalState'' x \<notin> set (trackedWritesForced attrs))
         \<and> (\<forall>x. SetAttribute ''RvcRunMode'' ''currentMode'' x \<notin> set (trackedWritesForced attrs))"
    by (cases "findBattery attrs")
       (auto simp add: trackedWritesForced_def forcedWrite_def computedBatteryLevel_def
          computedBatteryChargeState_def computedOperationalState_def computedRunMode_def)
  have p: "\<not> initialStatePending (fst (updateVacuumState cfg env v))"
    using cycle_completed(1) [OF assms(1) assms(3) assms(4)] .
  have q: "\<forall>cfg' envs. \<not> initialStatePending (pollCycles cfg' envs (fst (updateVacuumState cfg env v)))"
    using p pollCycles_pending_never_set by blast
  show ?thesis using w full nb ns p q by simp
qed

text \<open>
  Polling starts on the record that \<^verbatim>\<open>setInitialVacuumState\<close> has primed with the docked
  snapshot at full battery. The first cycle receives a snapshot with a status record but
  no battery record: it writes the operational state and the run mode only, and clears
  the flag.
\<close>

theorem initial_cycle_without_battery_record_counterexample:
  "device primedVacuum \<and> initialStatePending primedVacuum
   \<and> stateAttributes (quietEnv (Attributes snapshotStatusOnly)) = Attributes snapshotStatusOnly
   \<and> attributePassCompletes snapshotStatusOnly
   \<and> trackedWrites (snd (updateVacuumState exampleConfig
        (quietEnv (Attributes snapshotStatusOnly)) primedVacuum))
       = [SetAttribute ''RvcOperationalState'' ''operationalState'' (JNum Docked),
          SetAttribute ''RvcRunMode'' ''currentMode'' (JNum RvcRunMode_Idle)]
   \<and> online (fst (updateVacuumState exampleConfig
        (quietEnv (Attributes snapshotStatusOnly)) primedVacuum))
   \<and> \<not> initialStatePending (fst (updateVacuumState exampleConfig
        (quietEnv (Attributes snapshotStatusOnly)) primedVacuum))"
proof -
  have d: "device primedVacuum" and p: "initialStatePending primedVacuum"
    by (rule primedVacuum_state)+
  have e: "stateAttributes (quietEnv (Attributes snapshotStatusOnly)) = Attributes snapshotStatusOnly"
    by (rule stateAttributes_quietEnv)
  have c: "attributePassCompletes snapshotStatusOnly" by (rule computed_status_only)
  have w: "trackedWrites (snd (updateVacuumState exampleConfig
        (quietEnv (Attributes snapshotStatusOnly)) primedVacuum))
       = [SetAttribute ''RvcOperationalState'' ''operationalState'' (JNum Docked),
          SetAttribute ''RvcRunMode'' ''currentMode'' (JNum RvcRunMode_Idle)]"
    using p
    by (simp add: cycle_writes [OF d e] trackedWritesForced_def forcedWrite_def computed_status_only)
  show ?thesis using d p e c w cycle_completed(1,2) [OF d e c] by simp
qed

text \<open>
  On the primed record the stored values are the ones that the docked snapshot at full
  battery yields, so that change gating alone would write nothing. The first cycle on
  that snapshot writes all four attributes and clears the flag; the cycle after it, on
  the same snapshot, writes nothing, and the flag stays cleared through later cycles.
\<close>

theorem initial_cycle_publishes_present_attributes_witness:
  "device primedVacuum \<and> initialStatePending primedVacuum
   \<and> stateAttributes (quietEnv (Attributes (snapshotDocked 100))) = Attributes (snapshotDocked 100)
   \<and> attributePassCompletes (snapshotDocked 100)
   \<and> lastBatteryLevel primedVacuum = computedBatteryLevel (snapshotDocked 100)
   \<and> lastBatteryChargeState primedVacuum = computedBatteryChargeState (snapshotDocked 100)
   \<and> lastOperationalState primedVacuum = computedOperationalState (snapshotDocked 100)
   \<and> lastRunMode primedVacuum = computedRunMode (snapshotDocked 100)
   \<and> trackedWritesGated (snapshotDocked 100) primedVacuum = []
   \<and> findBattery (snapshotDocked 100) = Some (Some 100, ''charged'')
   \<and> findStatus (snapshotDocked 100) = Some (Some ''docked'')
   \<and> trackedWrites (snd (updateVacuumState exampleConfig
        (quietEnv (Attributes (snapshotDocked 100))) primedVacuum))
       = [SetAttribute ''PowerSource'' ''batPercentRemaining'' (JNum 200),
          SetAttribute ''PowerSource'' ''batChargeState'' (JNum 2),
          SetAttribute ''RvcOperationalState'' ''operationalState'' (JNum Docked),
          SetAttribute ''RvcRunMode'' ''currentMode'' (JNum RvcRunMode_Idle)]
   \<and> \<not> initialStatePending (fst (updateVacuumState exampleConfig
        (quietEnv (Attributes (snapshotDocked 100))) primedVacuum))
   \<and> trackedWrites (snd (updateVacuumState exampleConfig (quietEnv (Attributes (snapshotDocked 100)))
        (fst (updateVacuumState exampleConfig (quietEnv (Attributes (snapshotDocked 100)))
                primedVacuum)))) = []
   \<and> \<not> initialStatePending
         (pollCycles exampleConfig [quietEnv NoData, quietEnv NotAnArray, quietEnv FetchFailed]
            (fst (updateVacuumState exampleConfig (quietEnv (Attributes (snapshotDocked 100)))
                    primedVacuum)))"
proof -
  let ?env = "quietEnv (Attributes (snapshotDocked 100))"
  let ?v1 = "fst (updateVacuumState exampleConfig ?env primedVacuum)"
  have d: "device primedVacuum" and p: "initialStatePending primedVacuum"
    by (rule primedVacuum_state)+
  have e: "stateAttributes ?env = Attributes (snapshotDocked 100)"
    by (rule stateAttributes_quietEnv)
  have c: "attributePassCompletes (snapshotDocked 100)" by (rule computed_snapshotDocked)
  have s: "lastBatteryLevel primedVacuum = computedBatteryLevel (snapshotDocked 100)
     \<and> lastBatteryChargeState primedVacuum = computedBatteryChargeState (snapshotDocked 100)
     \<and> lastOperationalState primedVacuum = computedOperationalState (snapshotDocked 100)
     \<and> lastRunMode primedVacuum = computedRunMode (snapshotDocked 100)"
    by (simp add: primedVacuum_state computed_snapshotDocked)
  have g: "trackedWritesGated (snapshotDocked 100) primedVacuum = []"
    by (simp add: trackedWritesGated_def gatedWrite_def strictlyDiffers_def
          primedVacuum_state computed_snapshotDocked)
  have fb: "findBattery (snapshotDocked 100) = Some (Some 100, ''charged'')"
    and fs: "findStatus (snapshotDocked 100) = Some (Some ''docked'')"
    by (simp_all add: snapshotDocked_def)
  note t = initial_cycle_publishes_present_attributes [OF d p e c, of exampleConfig]
  have w: "trackedWrites (snd (updateVacuumState exampleConfig ?env primedVacuum))
       = [SetAttribute ''PowerSource'' ''batPercentRemaining'' (JNum 200),
          SetAttribute ''PowerSource'' ''batChargeState'' (JNum 2),
          SetAttribute ''RvcOperationalState'' ''operationalState'' (JNum Docked),
          SetAttribute ''RvcRunMode'' ''currentMode'' (JNum RvcRunMode_Idle)]"
    using t [THEN conjunct1] computed_snapshotDocked
    by (simp add: trackedWritesForced_def forcedWrite_def)
  have n: "\<not> initialStatePending ?v1"
    using t by blast
  note st = cycle_stored [OF d e, of exampleConfig]
  have w2: "trackedWrites (snd (updateVacuumState exampleConfig ?env ?v1)) = []"
    using n
    by (simp add: cycle_writes [OF st(1) e] trackedWritesGated_def gatedWrite_def
          strictlyDiffers_def st(2-5) storedAfter_def computed_snapshotDocked)
  have l: "\<not> initialStatePending
         (pollCycles exampleConfig [quietEnv NoData, quietEnv NotAnArray, quietEnv FetchFailed] ?v1)"
    using t by blast
  show ?thesis using d p e c s g fb fs w n w2 l by simp
qed

text \<open>
  Claim C5. A cycle whose attribute fetch yields no data ends early. It does not mark the
  device offline: the record, \<open>online\<close> included, is left as it was, also when the request
  itself failed and the client has logged that. Only an exception (here: a body that is
  not an array) reaches the handler that sets \<open>online\<close> to false.
\<close>

theorem failed_fetch_leaves_device_online:
  "device newVacuum \<and> online newVacuum
   \<and> updateVacuumState exampleConfig (quietEnv NoData) newVacuum
       = (newVacuum, [Log Warn ''Failed to fetch state attributes''])
   \<and> online (fst (updateVacuumState exampleConfig (quietEnv NoData) newVacuum))
   \<and> \<not> online (fst (updateVacuumState exampleConfig (quietEnv NotAnArray) newVacuum))
   \<and> updateVacuumState exampleConfig (quietEnv FetchFailed) newVacuum
       = (newVacuum, [Log Err ''HTTP GET'', Log Err ''Error fetching state attributes'',
                      Log Warn ''Failed to fetch state attributes''])
   \<and> online (fst (updateVacuumState exampleConfig (quietEnv FetchFailed) newVacuum))"
  by (simp add: updateVacuumState_def stateAttributes_quietEnv newVacuum_def)

text \<open>
  Claim C10. When the attribute fetch yields no data, because the request failed or
  because the body was empty, the cycle writes nothing to the sink and returns the device
  record unchanged, so that every later cycle runs exactly as it would have run without
  the failed one.
\<close>

theorem failed_fetch_leaves_record_unchanged:
  assumes "stateAttributes env = NoData \<or> stateAttributes env = FetchFailed"
  shows "fst (updateVacuumState cfg env v) = v
   \<and> filter isWrite (snd (updateVacuumState cfg env v)) = []
   \<and> (\<forall>cfg' env'. updateVacuumState cfg' env' (fst (updateVacuumState cfg env v))
                     = updateVacuumState cfg' env' v)"
proof -
  have a: "fst (updateVacuumState cfg env v) = v"
    using assms by (auto simp add: updateVacuumState_def)
  have b: "filter isWrite (snd (updateVacuumState cfg env v)) = []"
    using assms by (auto simp add: updateVacuumState_def)
  show ?thesis using a b by simp
qed

theorem failed_fetch_leaves_record_unchanged_witness:
  "stateAttributes (quietEnv NoData) = NoData
   \<and> fst (updateVacuumState exampleConfig (quietEnv NoData) exampleVacuum) = exampleVacuum
   \<and> initialStatePending (fst (updateVacuumState exampleConfig (quietEnv NoData) exampleVacuum))
   \<and> filter isWrite (snd (updateVacuumState exampleConfig (quietEnv NoData) exampleVacuum)) = []
   \<and> trackedWrites (snd (updateVacuumState exampleConfig (quietEnv (Attributes (snapshotDocked 100)))
        (fst (updateVacuumState exampleConfig (quietEnv NoData) exampleVacuum))))
       = trackedWritesForced (snapshotDocked 100)
   \<and> stateAttributes (quietEnv FetchFailed) = FetchFailed
   \<and> fst (updateVacuumState exampleConfig (quietEnv FetchFailed) primedVacuum) = primedVacuum
   \<and> filter isWrite (snd (updateVacuumState exampleConfig (quietEnv FetchFailed) primedVacuum)) = []
   \<and> trackedWrites (snd (updateVacuumState exampleConfig (quietEnv (Attributes (snapshotDocked 100)))
        (fst (updateVacuumState exampleConfig (quietEnv FetchFailed) primedVacuum))))
       = trackedWritesForced (snapshotDocked 100)"
proof -
  have e: "stateAttributes (quietEnv NoData) = NoData" by (rule stateAttributes_quietEnv)
  have e': "stateAttributes (quietEnv FetchFailed) = FetchFailed" by (rule stateAttributes_quietEnv)
  note t = failed_fetch_leaves_record_unchanged [OF disjI1, OF e, of exampleConfig exampleVacuum]
  note t' = failed_fetch_leaves_record_unchanged [OF disjI2, OF e', of exampleConfig primedVacuum]
  have d: "device exampleVacuum" and p: "initialStatePending exampleVacuum"
    using device_exampleVacuum by simp_all
  have w: "trackedWrites (snd (updateVacuumState exampleConfig (quietEnv (Attributes (snapshotDocked 100)))
        exampleVacuum)) = trackedWritesForced (snapshotDocked 100)"
    using p by (simp add: cycle_writes [OF d stateAttributes_quietEnv])
  have w': "trackedWrites (snd (updateVacuumState exampleConfig (quietEnv (Attributes (snapshotDocked 100)))
        primedVacuum)) = trackedWritesForced (snapshotDocked 100)"
    using primedVacuum_state(2)
    by (simp add: cycle_writes [OF primedVacuum_state(1) stateAttributes_quietEnv])
  have a: "stateAttributes (quietEnv NoData) = NoData
   \<and> fst (updateVacuumState exampleConfig (quietEnv NoData) exampleVacuum) = exampleVacuum
   \<and> initialStatePending (fst (updateVacuumState exampleConfig (quietEnv NoData) exampleVacuum))
   \<and> filter isWrite (snd (updateVacuumState exampleConfig (quietEnv NoData) exampleVacuum)) = []
   \<and> trackedWrites (snd (updateVacuumState exampleConfig (quietEnv (Attributes (snapshotDocked 100)))
        (fst (updateVacuumState exampleConfig (quietEnv NoData) exampleVacuum))))
       = trackedWritesForced (snapshotDocked 100)"
    using e t p w by simp
  have b: "stateAttributes (quietEnv FetchFailed) = FetchFailed
   \<and> fst (updateVacuumState exampleConfig (quietEnv FetchFailed) primedVacuum) = primedVacuum
   \<and> filter isWrite (snd (updateVacuumState exampleConfig (quietEnv FetchFailed) primedVacuum)) = []
   \<and> trackedWrites (snd (updateVacuumState exampleConfig (quietEnv (Attributes (snapshotDocked 100)))
        (fst (updateVacuumState exampleConfig (quietEnv FetchFailed) primedVacuum))))
       = trackedWritesForced (snapshotDocked 100)"
    using e' t' w' by simp
  show ?thesis using a b by blast
qed

section \<open>Fail-soft sub-steps: properties\<close>



lemma consumablesStep_failed:
  assumes "consumableMap p \<noteq> []"
    and "\<not> now_consumables env - lastConsumablesCheck p < CONSUMABLES_CHECK_INTERVAL"
    and "consumables env = Failed"
  shows "consumablesStep cfg env p =
     (p\<lparr>lastConsumablesCheck := now_consumables env\<rparr>,
      [Log Err ''HTTP GET'', Log Err ''Error fetching consumables''])"
  using assms by (simp add: consumablesStep_def updateConsumableStatesForVacuum_def Let_def)






section \<open>Consumable lifetime tracker: properties\<close>

lemma getMaxLifetime_nonzero: "getMaxLifetime c r maxLifetimes \<noteq> 0"
  by (simp add: getMaxLifetime_def split: option.split)

lemma warningThreshold_configured_nonzero:
  "consumables_warningThreshold config = Some t \<Longrightarrow> t \<noteq> 0 \<Longrightarrow>
     update_warningThreshold config = t \<and> setup_warningThreshold config = t"
  by (simp add: update_warningThreshold_def setup_warningThreshold_def)

lemma warningThreshold_default:
  "consumables_warningThreshold config = None \<Longrightarrow>
     update_warningThreshold config = 10 \<and> setup_warningThreshold config = 10"
  by (simp add: update_warningThreshold_def setup_warningThreshold_def)

lemma getConsumableName_mainBrush: "getConsumableName (mainBrush x) = ''Main Brush''"
  by (simp add: getConsumableName_def mainBrush_def typeMap_def sublist_code)

lemma getMaxLifetime_mainBrush:
  "getMaxLifetime (mainBrush x) \<lparr>rem_value = x, rem_unit = ''minutes''\<rparr> defaultMaxLifetimes = 18000"
  by (simp add: getMaxLifetime_def mainBrush_def defaultMaxLifetimes_def sublist_code)

lemma lifePercent_mainBrush:
  "lifePercent (mainBrush 200) \<lparr>rem_value = 200, rem_unit = ''minutes''\<rparr> defaultMaxLifetimes = 1"
  "lifePercent (mainBrush 900) \<lparr>rem_value = 900, rem_unit = ''minutes''\<rparr> defaultMaxLifetimes = 5"
  by (simp_all add: lifePercent_def getMaxLifetime_mainBrush js_round_def)

lemma checkConsumable_result:
  assumes "map_of m (getConsumableName c) = Some entry" and "remaining c = Some r"
  shows "checkConsumable mx thr c m =
     Returned
       (AList.update (getConsumableName c)
          (entry\<lparr>consumable := c, lastState := Some (real_of_int (lifePercent c r mx) \<le> thr)\<rparr>) m,
        (if lastState entry = Some (real_of_int (lifePercent c r mx) \<le> thr) then []
         else [Log Info (getConsumableName c
                 @ (if real_of_int (lifePercent c r mx) \<le> thr
                    then '': NEEDS REPLACEMENT'' else '': OK''))])
        @ (if endpoint entry
           then [SetSensorAttribute (getConsumableName c) ''BooleanState'' ''stateValue''
                   (JBool (\<not> real_of_int (lifePercent c r mx) \<le> thr))]
           else []))"
proof (cases "lastState entry = Some (real_of_int (lifePercent c r mx) \<le> thr)")
  case True
  have eq: "entry\<lparr>consumable := c, lastState := Some (real_of_int (lifePercent c r mx) \<le> thr)\<rparr>
      = entry\<lparr>consumable := c\<rparr>" using True by simp
  show ?thesis unfolding eq using assms True by (simp add: checkConsumable_def Let_def)
next
  case False
  then show ?thesis using assms by (auto simp add: checkConsumable_def Let_def)
qed

text \<open>
  Claim C6, as the code has it. A check of a tracked consumable does not raise when the
  payload has its \<^verbatim>\<open>remaining\<close> record. It writes the status log line exactly when the
  computed needs-replacement value is not the stored last state (which includes the case
  of no stored state), and it writes the contact sensor on every check of an entry that
  has one. Afterwards the stored state is the computed value, so that the next check
  with the same outcome logs nothing.
\<close>

theorem consumable_status_log_is_edge_triggered:
  assumes "map_of m (getConsumableName c) = Some entry" and "remaining c = Some r"
  shows "\<not> raised (checkConsumable mx thr c m)
   \<and> filter isLog (snd (reached (checkConsumable mx thr c m)))
       = (if lastState entry = Some (real_of_int (lifePercent c r mx) \<le> thr) then []
          else [Log Info (getConsumableName c
                  @ (if real_of_int (lifePercent c r mx) \<le> thr
                     then '': NEEDS REPLACEMENT'' else '': OK''))])
   \<and> filter isWrite (snd (reached (checkConsumable mx thr c m)))
       = (if endpoint entry
          then [SetSensorAttribute (getConsumableName c) ''BooleanState'' ''stateValue''
                  (JBool (\<not> real_of_int (lifePercent c r mx) \<le> thr))]
          else [])
   \<and> map_of (fst (reached (checkConsumable mx thr c m))) (getConsumableName c)
       = Some (entry\<lparr>consumable := c, lastState := Some (real_of_int (lifePercent c r mx) \<le> thr)\<rparr>)
   \<and> (\<forall>c' r'. getConsumableName c' = getConsumableName c \<and> remaining c' = Some r'
          \<and> (real_of_int (lifePercent c' r' mx) \<le> thr) = (real_of_int (lifePercent c r mx) \<le> thr)
        \<longrightarrow> filter isLog (snd (reached
               (checkConsumable mx thr c' (fst (reached (checkConsumable mx thr c m)))))) = [])"
proof -
  let ?needs = "real_of_int (lifePercent c r mx) \<le> thr"
  let ?entry' = "entry\<lparr>consumable := c, lastState := Some ?needs\<rparr>"
  let ?m' = "AList.update (getConsumableName c) ?entry' m"
  note res = checkConsumable_result [OF assms, of mx thr]
  have m': "map_of ?m' (getConsumableName c) = Some ?entry'"
    by (simp add: update_conv')
  have again: "filter isLog (snd (reached (checkConsumable mx thr c' ?m'))) = []"
    if h: "getConsumableName c' = getConsumableName c \<and> remaining c' = Some r'
          \<and> (real_of_int (lifePercent c' r' mx) \<le> thr) = ?needs" for c' r'
  proof -
    have l: "map_of ?m' (getConsumableName c') = Some ?entry'" using m' h by simp
    have r: "remaining c' = Some r'" using h by simp
    show ?thesis using h by (simp add: checkConsumable_result [OF l r, of mx thr])
  qed
  have m_eq: "fst (reached (checkConsumable mx thr c m)) = ?m'" by (simp add: res)
  have p1: "\<not> raised (checkConsumable mx thr c m)" by (simp add: res)
  have p2: "filter isLog (snd (reached (checkConsumable mx thr c m)))
       = (if lastState entry = Some ?needs then []
          else [Log Info (getConsumableName c
                  @ (if ?needs then '': NEEDS REPLACEMENT'' else '': OK''))])"
    by (simp add: res)
  have p3: "filter isWrite (snd (reached (checkConsumable mx thr c m)))
       = (if endpoint entry
          then [SetSensorAttribute (getConsumableName c) ''BooleanState'' ''stateValue''
                  (JBool (\<not> ?needs))]
          else [])"
    by (simp add: res)
  have p4: "map_of (fst (reached (checkConsumable mx thr c m))) (getConsumableName c) = Some ?entry'"
    by (simp only: m_eq m')
  have p5: "\<forall>c' r'. getConsumableName c' = getConsumableName c \<and> remaining c' = Some r'
          \<and> (real_of_int (lifePercent c' r' mx) \<le> thr) = ?needs
        \<longrightarrow> filter isLog (snd (reached
               (checkConsumable mx thr c' (fst (reached (checkConsumable mx thr c m)))))) = []"
    unfolding m_eq using again by blast
  show ?thesis using p1 p2 p3 p4 p5 by blast
qed

text \<open>
  With 200 of 18000 minutes left (1 percent) and a threshold of 10, an entry with a
  contact sensor whose stored state already is ``needs replacement'' is written to the
  sensor again.
\<close>

theorem consumable_sensor_written_without_transition_counterexample:
  "lifePercent (mainBrush 200) \<lparr>rem_value = 200, rem_unit = ''minutes''\<rparr> defaultMaxLifetimes = 1
   \<and> checkConsumable defaultMaxLifetimes 10 (mainBrush 200)
        [(''Main Brush'', \<lparr>endpoint = True, consumable = mainBrush 200, lastState = Some True\<rparr>)]
       = Returned
           ([(''Main Brush'', \<lparr>endpoint = True, consumable = mainBrush 200, lastState = Some True\<rparr>)],
            [SetSensorAttribute ''Main Brush'' ''BooleanState'' ''stateValue'' (JBool False)])"
proof -
  have n: "map_of [(''Main Brush'', \<lparr>endpoint = True, consumable = mainBrush 200, lastState = Some True\<rparr>)]
             (getConsumableName (mainBrush 200))
           = Some \<lparr>endpoint = True, consumable = mainBrush 200, lastState = Some True\<rparr>"
    by (simp add: getConsumableName_mainBrush)
  have r: "remaining (mainBrush 200) = Some \<lparr>rem_value = 200, rem_unit = ''minutes''\<rparr>"
    by (simp add: mainBrush_def)
  show ?thesis
    by (simp add: checkConsumable_result [OF n r] lifePercent_mainBrush getConsumableName_mainBrush)
qed

text \<open>
  The same consumable on an entry without contact sensor and without stored state: the
  first check logs, the following ones neither log nor publish.
\<close>

theorem consumable_status_log_is_edge_triggered_witness:
  "map_of (consumableMap exampleVacuum) (getConsumableName (mainBrush 200))
     = Some \<lparr>endpoint = False, consumable = mainBrush 200, lastState = None\<rparr>
   \<and> remaining (mainBrush 200) = Some \<lparr>rem_value = 200, rem_unit = ''minutes''\<rparr>
   \<and> consumablesLoop defaultMaxLifetimes 10 [mainBrush 200] (consumableMap exampleVacuum)
       = Returned
           ([(''Main Brush'', \<lparr>endpoint = False, consumable = mainBrush 200, lastState = Some True\<rparr>)],
            [Log Info ''Main Brush: NEEDS REPLACEMENT''])
   \<and> consumablesLoop defaultMaxLifetimes 10 [mainBrush 200]
        [(''Main Brush'', \<lparr>endpoint = False, consumable = mainBrush 200, lastState = Some True\<rparr>)]
       = Returned
           ([(''Main Brush'', \<lparr>endpoint = False, consumable = mainBrush 200, lastState = Some True\<rparr>)],
            [])
   \<and> filter isLog (snd (reached (checkConsumable defaultMaxLifetimes 10 (mainBrush 200)
        (fst (reached (checkConsumable defaultMaxLifetimes 10 (mainBrush 200)
                         (consumableMap exampleVacuum))))))) = []"
proof -
  have n: "map_of (consumableMap exampleVacuum) (getConsumableName (mainBrush 200))
     = Some \<lparr>endpoint = False, consumable = mainBrush 200, lastState = None\<rparr>"
    by (simp add: getConsumableName_mainBrush exampleVacuum_def newVacuum_def)
  have r: "remaining (mainBrush 200) = Some \<lparr>rem_value = 200, rem_unit = ''minutes''\<rparr>"
    by (simp add: mainBrush_def)
  note t = consumable_status_log_is_edge_triggered [OF n r, of defaultMaxLifetimes 10]
  have first: "consumablesLoop defaultMaxLifetimes 10 [mainBrush 200] (consumableMap exampleVacuum)
       = Returned
           ([(''Main Brush'', \<lparr>endpoint = False, consumable = mainBrush 200, lastState = Some True\<rparr>)],
            [Log Info ''Main Brush: NEEDS REPLACEMENT''])"
  proof -
    have cm: "consumableMap exampleVacuum
        = [(''Main Brush'', \<lparr>endpoint = False, consumable = mainBrush 200, lastState = None\<rparr>)]"
      by (simp add: exampleVacuum_def newVacuum_def)
    have n1: "map_of [(''Main Brush'', \<lparr>endpoint = False, consumable = mainBrush 200, lastState = None\<rparr>)]
             (getConsumableName (mainBrush 200))
        = Some \<lparr>endpoint = False, consumable = mainBrush 200, lastState = None\<rparr>"
      by (simp add: getConsumableName_mainBrush)
    have k: "checkConsumable defaultMaxLifetimes 10 (mainBrush 200)
         [(''Main Brush'', \<lparr>endpoint = False, consumable = mainBrush 200, lastState = None\<rparr>)]
       = Returned
           ([(''Main Brush'', \<lparr>endpoint = False, consumable = mainBrush 200, lastState = Some True\<rparr>)],
            [Log Info ''Main Brush: NEEDS REPLACEMENT''])"
      by (simp add: checkConsumable_result [OF n1 r] lifePercent_mainBrush
            getConsumableName_mainBrush)
    show ?thesis by (simp add: cm k)
  qed
  have n2: "map_of [(''Main Brush'', \<lparr>endpoint = False, consumable = mainBrush 200, lastState = Some True\<rparr>)]
             (getConsumableName (mainBrush 200))
     = Some \<lparr>endpoint = False, consumable = mainBrush 200, lastState = Some True\<rparr>"
    by (simp add: getConsumableName_mainBrush)
  have second: "consumablesLoop defaultMaxLifetimes 10 [mainBrush 200]
        [(''Main Brush'', \<lparr>endpoint = False, consumable = mainBrush 200, lastState = Some True\<rparr>)]
       = Returned
           ([(''Main Brush'', \<lparr>endpoint = False, consumable = mainBrush 200, lastState = Some True\<rparr>)],
            [])"
    by (simp add: checkConsumable_result [OF n2 r] lifePercent_mainBrush getConsumableName_mainBrush)
  have third: "filter isLog (snd (reached (checkConsumable defaultMaxLifetimes 10 (mainBrush 200)
        (fst (reached (checkConsumable defaultMaxLifetimes 10 (mainBrush 200)
                         (consumableMap exampleVacuum))))))) = []"
    using t r by blast
  show ?thesis using n r first second third by simp
qed

text \<open>
  Claim C7. The needs-replacement value is \<open>lifePercent \<le> warningThreshold\<close> with a
  default of 10 for a threshold that is not configured. With a configured threshold of
  zero and 5 percent of life left, device setup uses the threshold zero (\<^verbatim>\<open>??\<close>) and
  finds the consumable in order, while the periodic check replaces the zero by 10
  (\<^verbatim>\<open>||\<close>) and reports that it needs replacement.
\<close>

theorem zero_warning_threshold_is_replaced_in_periodic_check:
  "consumables_warningThreshold thresholdZeroConfig = Some 0
   \<and> lifePercent (mainBrush 900) \<lparr>rem_value = 900, rem_unit = ''minutes''\<rparr>
        (configuredMaxLifetimes thresholdZeroConfig) = 5
   \<and> setup_warningThreshold thresholdZeroConfig = 0
   \<and> update_warningThreshold thresholdZeroConfig = 10
   \<and> setupConsumableEntry thresholdZeroConfig True (mainBrush 900)
       = Some (''Main Brush'', \<lparr>endpoint = True, consumable = mainBrush 900, lastState = Some False\<rparr>)
   \<and> checkConsumable (configuredMaxLifetimes thresholdZeroConfig)
        (update_warningThreshold thresholdZeroConfig) (mainBrush 900)
        [(''Main Brush'', \<lparr>endpoint = True, consumable = mainBrush 900, lastState = Some False\<rparr>)]
       = Returned
           ([(''Main Brush'', \<lparr>endpoint = True, consumable = mainBrush 900, lastState = Some True\<rparr>)],
            [Log Info ''Main Brush: NEEDS REPLACEMENT'',
             SetSensorAttribute ''Main Brush'' ''BooleanState'' ''stateValue'' (JBool False)])"
proof -
  have c: "configuredMaxLifetimes thresholdZeroConfig = defaultMaxLifetimes"
    by (simp add: configuredMaxLifetimes_def thresholdZeroConfig_def exampleConfig_def)
  have s: "setup_warningThreshold thresholdZeroConfig = 0"
    by (simp add: setup_warningThreshold_def thresholdZeroConfig_def)
  have u: "update_warningThreshold thresholdZeroConfig = 10"
    by (simp add: update_warningThreshold_def thresholdZeroConfig_def)
  have r: "remaining (mainBrush 900) = Some \<lparr>rem_value = 900, rem_unit = ''minutes''\<rparr>"
    by (simp add: mainBrush_def)
  have n: "map_of [(''Main Brush'', \<lparr>endpoint = True, consumable = mainBrush 900, lastState = Some False\<rparr>)]
             (getConsumableName (mainBrush 900))
     = Some \<lparr>endpoint = True, consumable = mainBrush 900, lastState = Some False\<rparr>"
    by (simp add: getConsumableName_mainBrush)
  have e: "setupConsumableEntry thresholdZeroConfig True (mainBrush 900)
       = Some (''Main Brush'', \<lparr>endpoint = True, consumable = mainBrush 900, lastState = Some False\<rparr>)"
    by (simp add: setupConsumableEntry_def r c s lifePercent_mainBrush getConsumableName_mainBrush)
  have k: "checkConsumable defaultMaxLifetimes 10 (mainBrush 900)
        [(''Main Brush'', \<lparr>endpoint = True, consumable = mainBrush 900, lastState = Some False\<rparr>)]
       = Returned
           ([(''Main Brush'', \<lparr>endpoint = True, consumable = mainBrush 900, lastState = Some True\<rparr>)],
            [Log Info ''Main Brush: NEEDS REPLACEMENT'',
             SetSensorAttribute ''Main Brush'' ''BooleanState'' ''stateValue'' (JBool False)])"
    by (simp add: checkConsumable_result [OF n r] lifePercent_mainBrush getConsumableName_mainBrush)
  show ?thesis using c s u e k
    by (simp add: lifePercent_mainBrush thresholdZeroConfig_def)
qed

end
